theory Spec2Isabelle
  imports
    Complex_Main
    "HOL-Library.Char_ord"
    "HOL-Library.List_Lexorder"
    "HOL-Library.Product_Lexorder"
begin

section \<open>Strings as Python has them\<close>

text \<open>
  A Python \<^verbatim>\<open>str\<close> is a sequence of code points. A \<^typ>\<open>char\<close> stands for the code
  point of the same number (0..255); code points above 255 are outside the model.
  The predicates below are Python's \<^verbatim>\<open>str.isspace\<close>, \<^verbatim>\<open>str.isupper\<close>,
  \<^verbatim>\<open>str.islower\<close> on one character and \<^verbatim>\<open>str.lower\<close>, restricted to that range.
\<close>

definition isspace :: "char \<Rightarrow> bool" where
  "isspace c =
     (let n = (of_char c :: nat)
      in (9 \<le> n \<and> n \<le> 13) \<or> (28 \<le> n \<and> n \<le> 32) \<or> n = 133 \<or> n = 160)"

definition isupper :: "char \<Rightarrow> bool" where
  "isupper c =
     (let n = (of_char c :: nat)
      in (65 \<le> n \<and> n \<le> 90) \<or> (192 \<le> n \<and> n \<le> 214) \<or> (216 \<le> n \<and> n \<le> 222))"

definition islower :: "char \<Rightarrow> bool" where
  "islower c =
     (let n = (of_char c :: nat)
      in (97 \<le> n \<and> n \<le> 122) \<or> n = 170 \<or> n = 181 \<or> n = 186
         \<or> (223 \<le> n \<and> n \<le> 246) \<or> (248 \<le> n \<and> n \<le> 255))"

definition lower_char :: "char \<Rightarrow> char" where
  "lower_char c = (if isupper c then char_of ((of_char c :: nat) + 32) else c)"

definition lower :: "string \<Rightarrow> string" where
  "lower s = map lower_char s"

text \<open>\<^verbatim>\<open>sub in s\<close>: \<open>sub\<close> occurs in \<open>s\<close> as a contiguous substring.\<close>

fun contains :: "string \<Rightarrow> string \<Rightarrow> bool" where
  "contains sub [] = (sub = [])"
| "contains sub (c # cs) = (take (length sub) (c # cs) = sub \<or> contains sub cs)"

text \<open>\<^verbatim>\<open>s.strip()\<close>: leading and trailing whitespace removed.\<close>

definition strip :: "string \<Rightarrow> string" where
  "strip s = rev (dropWhile isspace (rev (dropWhile isspace s)))"

text \<open>
  \<^verbatim>\<open>s.replace(old, new)\<close>: the occurrences of \<open>old\<close> are found from the left and do
  not overlap; the text put in place of one is not scanned again. With an empty
  \<open>old\<close>, Python puts \<open>new\<close> before every character and at the end.
\<close>

function str_replace :: "string \<Rightarrow> string \<Rightarrow> string \<Rightarrow> string" where
  "str_replace old new s =
     (if old = [] then new @ concat (map (\<lambda>c. c # new) s)
      else if s = [] then []
      else if take (length old) s = old
        then new @ str_replace old new (drop (length old) s)
      else hd s # str_replace old new (tl s))"
  by pat_completeness auto
termination
  by (relation "measure (\<lambda>(old, new, s). length s)") auto

declare str_replace.simps [simp del]

section \<open>Run classifier\<close>

text \<open>
  \<^verbatim>\<open>
  def extract_test_type(filename: str) -> str:
      filename_lower = filename.lower()
      if '250' in filename_lower and 'passive' not in filename_lower:
          return '250W'
      elif '200' in filename_lower and 'passive' not in filename_lower:
          return '200W'
      elif '150' in filename_lower and 'passive' not in filename_lower:
          return '150W'
      elif 'passive' in filename_lower:
          return 'Passive'
      else:
          return 'Unknown'
  \<close>
\<close>

definition extract_test_type :: "string \<Rightarrow> string" where
  "extract_test_type filename =
     (let filename_lower = lower filename
      in if contains ''250'' filename_lower \<and> \<not> contains ''passive'' filename_lower
           then ''250W''
         else if contains ''200'' filename_lower \<and> \<not> contains ''passive'' filename_lower
           then ''200W''
         else if contains ''150'' filename_lower \<and> \<not> contains ''passive'' filename_lower
           then ''150W''
         else if contains ''passive'' filename_lower
           then ''Passive''
         else ''Unknown'')"

text \<open>
  \<^verbatim>\<open>
  def extract_pilot_short_name(pilot_dir_name: str) -> str:
      name = pilot_dir_name.replace(' Tests', '').strip()
      if len(name) > 1 and name[-1].isupper() and name[-2].islower():
          return name[:-1] + ' ' + name[-1]
      return name
  \<close>
\<close>

definition extract_pilot_short_name :: "string \<Rightarrow> string" where
  "extract_pilot_short_name pilot_dir_name =
     (let name = strip (str_replace '' Tests'' '''' pilot_dir_name)
      in if length name > 1 \<and> isupper (name ! (length name - 1))
            \<and> islower (name ! (length name - 2))
           then take (length name - 1) name @ '' '' @ [name ! (length name - 1)]
         else name)"

section \<open>Floating-point values and cells\<close>

text \<open>
  A float is a real number, one of the two infinities or NaN; NaN is also pandas'
  null, the "undefined" value of a numeric column. Rounding, overflow to an infinity
  and the sign of zero are not modelled: arithmetic on finite values is exact.
\<close>

datatype npfloat = Fin real | PInf | NInf | NaN

fun fsign :: "npfloat \<Rightarrow> real" where
  "fsign (Fin a) = sgn a"
| "fsign PInf = 1"
| "fsign NInf = - 1"
| "fsign NaN = 0"

definition inf_signed :: "real \<Rightarrow> npfloat" where
  "inf_signed s = (if s > 0 then PInf else if s < 0 then NInf else NaN)"

fun fmul :: "npfloat \<Rightarrow> npfloat \<Rightarrow> npfloat" where
  "fmul NaN y = NaN"
| "fmul x NaN = NaN"
| "fmul (Fin a) (Fin b) = Fin (a * b)"
| "fmul x y = inf_signed (fsign x * fsign y)"

fun fadd :: "npfloat \<Rightarrow> npfloat \<Rightarrow> npfloat" where
  "fadd NaN y = NaN"
| "fadd x NaN = NaN"
| "fadd (Fin a) (Fin b) = Fin (a + b)"
| "fadd (Fin a) y = y"
| "fadd x (Fin b) = x"
| "fadd x y = (if x = y then x else NaN)"

text \<open>
  Division of array elements as numpy does it: it never raises; a finite value
  over zero is an infinity, and zero over zero, or an infinity over an infinity, is NaN.
\<close>

fun fdiv :: "npfloat \<Rightarrow> npfloat \<Rightarrow> npfloat" where
  "fdiv NaN y = NaN"
| "fdiv x NaN = NaN"
| "fdiv (Fin a) (Fin b) = (if b = 0 then inf_signed (sgn a) else Fin (a / b))"
| "fdiv (Fin a) y = Fin 0"
| "fdiv x (Fin b) = inf_signed (fsign x * (if b < 0 then - 1 else 1))"
| "fdiv x y = NaN"

text \<open>The order of the floats that are not NaN, as a sort key.\<close>

fun fkey :: "npfloat \<Rightarrow> int \<times> real" where
  "fkey NInf = (- 1, 0)"
| "fkey (Fin a) = (0, a)"
| "fkey PInf = (1, 0)"
| "fkey NaN = (2, 0)"

datatype py_error =
  KeyError | ValueError | TypeError | ZeroDivisionError | OverflowError | OtherError

definition and_then :: "py_error + 'a \<Rightarrow> ('a \<Rightarrow> py_error + 'b) \<Rightarrow> py_error + 'b" where
  "and_then m f = (case m of Inl e \<Rightarrow> Inl e | Inr x \<Rightarrow> f x)"

text \<open>A cell of a table read from a CSV file: a number or a text.\<close>

datatype cell = Flt npfloat | Text string

section \<open>Frames\<close>

text \<open>
  A \<^verbatim>\<open>DataFrame\<close>: the names of its columns and its rows, each row giving the cell
  of every column. A frame with columns and no rows is a file with only a header.
\<close>

record frame =
  columns :: "string list"
  rows :: "(string \<Rightarrow> cell) list"

definition nrows :: "frame \<Rightarrow> nat" where
  "nrows df = length (rows df)"

text \<open>\<^verbatim>\<open>df[col]\<close>, which raises \<^verbatim>\<open>KeyError\<close> for a column the frame does not have.\<close>

definition get_series :: "frame \<Rightarrow> string \<Rightarrow> py_error + cell list" where
  "get_series df col =
     (if col \<in> set (columns df) then Inr (map (\<lambda>r. r col) (rows df)) else Inl KeyError)"

text \<open>
  \<^verbatim>\<open>df[col] = values\<close>: the column is replaced, or added after the others; values of
  another length than the frame raise \<^verbatim>\<open>ValueError\<close>.
\<close>

definition with_series :: "string \<Rightarrow> cell list \<Rightarrow> frame \<Rightarrow> frame" where
  "with_series col vs df =
     \<lparr>columns = (if col \<in> set (columns df) then columns df else columns df @ [col]),
      rows = map2 (\<lambda>r v. r(col := v)) (rows df) vs\<rparr>"

definition set_series :: "string \<Rightarrow> cell list \<Rightarrow> frame \<Rightarrow> py_error + frame" where
  "set_series col vs df =
     (if length vs \<noteq> length (rows df) then Inl ValueError else Inr (with_series col vs df))"

text \<open>\<^verbatim>\<open>df[col] = scalar\<close>: the scalar fills the column.\<close>

definition set_scalar :: "string \<Rightarrow> cell \<Rightarrow> frame \<Rightarrow> frame" where
  "set_scalar col v df = with_series col (replicate (length (rows df)) v) df"

text \<open>Arithmetic on a column needs numbers: a text cell raises \<^verbatim>\<open>TypeError\<close>.\<close>

fun as_floats :: "cell list \<Rightarrow> py_error + npfloat list" where
  "as_floats [] = Inr []"
| "as_floats (Flt x # cs) = and_then (as_floats cs) (\<lambda>xs. Inr (x # xs))"
| "as_floats (Text s # cs) = Inl TypeError"

text \<open>A numeric column of a frame, as a list of floats.\<close>

definition float_series :: "frame \<Rightarrow> string \<Rightarrow> py_error + npfloat list" where
  "float_series df col = and_then (get_series df col) as_floats"

section \<open>The parsers of pandas\<close>

text \<open>
  What pandas makes of a column is not part of the repository; it is a parameter:
  \<^item> \<open>text_to_number\<close>: \<^verbatim>\<open>pd.to_numeric(errors="coerce")\<close> on a text, NaN when the
    text is no number;
  \<^item> \<open>column_times\<close>: \<^verbatim>\<open>pd.to_datetime(errors="coerce")\<close> on a column, for each row
    the time in nanoseconds since the epoch, or \<open>None\<close> (NaT). pandas reads a column as
    a whole (the format comes from the first cell it can read), so what a cell gives
    depends on the column it stands in;
  \<^item> \<open>time_raises\<close>: whether the time computation raises on a whole column in
    spite of the coercion, as it does on timestamps of mixed UTC offsets.
\<close>

record pandas =
  text_to_number :: "string \<Rightarrow> npfloat"
  column_times :: "cell list \<Rightarrow> nat \<Rightarrow> int option"
  time_raises :: "cell list \<Rightarrow> bool"

definition to_numeric :: "pandas \<Rightarrow> cell \<Rightarrow> npfloat" where
  "to_numeric P c = (case c of Flt x \<Rightarrow> x | Text s \<Rightarrow> text_to_number P s)"

text \<open>
  The times of a column, one for each of its rows. A NaN cell is no time, whatever
  the parser.
\<close>

definition to_datetime :: "pandas \<Rightarrow> cell list \<Rightarrow> int option list" where
  "to_datetime P col =
     map (\<lambda>i. if col ! i = Flt NaN then None else column_times P col i) [0..<length col]"

definition fillna :: "npfloat \<Rightarrow> npfloat \<Rightarrow> npfloat" where
  "fillna d x = (if x = NaN then d else x)"

text \<open>\<^verbatim>\<open>series.replace({0.0: np.nan})\<close> on one value.\<close>

definition replace_zero :: "npfloat \<Rightarrow> npfloat" where
  "replace_zero x = (if x = Fin 0 then NaN else x)"

section \<open>Frame normalizer\<close>

text \<open>
  \<^verbatim>\<open>
  for col in ("timestamp", "power", "speed"):
      if col not in df.columns:
          df[col] = np.nan if col == "timestamp" else 0.0
  \<close>
\<close>

definition ensure_columns :: "frame \<Rightarrow> frame" where
  "ensure_columns df =
     fold (\<lambda>col d. if col \<notin> set (columns d)
                     then set_scalar col (if col = ''timestamp'' then Flt NaN else Flt (Fin 0)) d
                     else d)
          [''timestamp'', ''power'', ''speed''] df"

text \<open>
  The body of the \<^verbatim>\<open>try\<close>:
  \<^verbatim>\<open>
  ts = pd.to_datetime(df["timestamp"], errors="coerce")
  t0 = ts.dropna().min()
  df["time_s"] = (ts - t0).dt.total_seconds()
  \<close>
  The minimum of no time at all is NaT, and a difference with NaT is NaT, which
  \<^verbatim>\<open>total_seconds\<close> gives as NaN: none of this raises.
\<close>

definition elapsed_seconds :: "int option \<Rightarrow> int option \<Rightarrow> npfloat" where
  "elapsed_seconds t t0 =
     (case t of None \<Rightarrow> NaN
      | Some a \<Rightarrow> (case t0 of None \<Rightarrow> NaN | Some b \<Rightarrow> Fin (real_of_int (a - b) / 10 ^ 9)))"

definition time_base :: "pandas \<Rightarrow> cell list \<Rightarrow> py_error + npfloat list" where
  "time_base P col =
     (if time_raises P col then Inl OtherError
      else let ts = to_datetime P col;
               parsed = List.map_filter (\<lambda>t. t) ts;
               t0 = (if parsed = [] then None else Some (Min (set parsed)))
           in Inr (map (\<lambda>t. elapsed_seconds t t0) ts))"

text \<open>\<^verbatim>\<open>np.arange(len(df), dtype=float)\<close>\<close>

definition arange :: "nat \<Rightarrow> npfloat list" where
  "arange n = map (\<lambda>i. Fin (real i)) [0..<n]"

text \<open>
  An integer becomes a float when it is within the range of a float: the largest
  float is \<open>2 ^ 1024 - 2 ^ 971\<close>, and an integer that rounds beyond it, which is one of
  magnitude \<open>2 ^ 1024 - 2 ^ 970\<close> or more, raises \<^verbatim>\<open>OverflowError\<close>.
\<close>

definition float_limit :: int where
  "float_limit = 2 ^ 1024 - 2 ^ 970"

definition in_float_range :: "int \<Rightarrow> bool" where
  "in_float_range n = (\<bar>n\<bar> < float_limit)"

text \<open>\<^verbatim>\<open>float(n)\<close>\<close>

definition py_float :: "int \<Rightarrow> py_error + npfloat" where
  "py_float n = (if in_float_range n then Inr (Fin (real_of_int n)) else Inl OverflowError)"

text \<open>
  \<^verbatim>\<open>a / y\<close> for an integer \<open>a\<close> and a float \<open>y\<close>: the integer becomes a float, and a
  zero divisor raises \<^verbatim>\<open>ZeroDivisionError\<close>.
\<close>

definition py_truediv :: "int \<Rightarrow> npfloat \<Rightarrow> py_error + npfloat" where
  "py_truediv a y =
     and_then (py_float a) (\<lambda>x. if y = Fin 0 then Inl ZeroDivisionError else Inr (fdiv x y))"

text \<open>
  \<^verbatim>\<open>
  def compute_torque_frame(df, gear3_teeth, gear4_teeth, wheel2_radius_m):
      df = df.copy()
      for col in ("timestamp", "power", "speed"): ...
      try:
          ts = pd.to_datetime(df["timestamp"], errors="coerce")
          t0 = ts.dropna().min()
          df["time_s"] = (ts - t0).dt.total_seconds()
      except Exception:
          df["time_s"] = np.arange(len(df), dtype=float)
      df["speed_mps"] = pd.to_numeric(df["speed"], errors="coerce").fillna(0.0) * 0.44704
      df["power_w"] = pd.to_numeric(df["power"], errors="coerce").fillna(0.0)
      ratio = (gear4_teeth / float(gear3_teeth)) if gear3_teeth else np.nan
      with np.errstate(divide="ignore", invalid="ignore"):
          df["torque4_nm"] = (df["power_w"] * ratio * wheel2_radius_m)
                             / df["speed_mps"].replace({0.0: np.nan})
      return df
  \<close>
\<close>

definition compute_torque_frame ::
    "pandas \<Rightarrow> frame \<Rightarrow> int \<Rightarrow> int \<Rightarrow> npfloat \<Rightarrow> py_error + frame" where
  "compute_torque_frame P df0 gear3_teeth gear4_teeth wheel2_radius_m =
     (let df1 = ensure_columns df0 in
      and_then (get_series df1 ''timestamp'') (\<lambda>timestamp.
      and_then (set_series ''time_s''
                  (map Flt (case time_base P timestamp of
                              Inr secs \<Rightarrow> secs
                            | Inl e \<Rightarrow> arange (length (rows df1)))) df1) (\<lambda>df2.
      and_then (get_series df2 ''speed'') (\<lambda>speed.
      and_then (set_series ''speed_mps''
                  (map (\<lambda>c. Flt (fmul (fillna (Fin 0) (to_numeric P c)) (Fin 0.44704))) speed)
                  df2) (\<lambda>df3.
      and_then (get_series df3 ''power'') (\<lambda>power.
      and_then (set_series ''power_w''
                  (map (\<lambda>c. Flt (fillna (Fin 0) (to_numeric P c))) power) df3) (\<lambda>df4.
      and_then (if gear3_teeth \<noteq> 0
                then and_then (py_float gear3_teeth) (py_truediv gear4_teeth)
                else Inr NaN) (\<lambda>ratio.
      and_then (float_series df4 ''power_w'') (\<lambda>power_w.
      and_then (float_series df4 ''speed_mps'') (\<lambda>speed_mps.
      set_series ''torque4_nm''
        (map2 (\<lambda>p s. Flt (fdiv (fmul (fmul p ratio) wheel2_radius_m) (replace_zero s)))
              power_w speed_mps) df4))))))))))"

section \<open>Run summary\<close>

text \<open>
  \<^verbatim>\<open>np.nanmedian\<close> drops the NaN values and takes the median of the rest, the mean
  of the two middle values when their number is even; of no value at all it is NaN.
\<close>

definition median :: "npfloat list \<Rightarrow> npfloat" where
  "median ys =
     (let part = sort_key fkey ys; n = length part
      in if even n then fdiv (fadd (part ! (n div 2 - 1)) (part ! (n div 2))) (Fin 2)
         else part ! (n div 2))"

definition nanmedian :: "npfloat list \<Rightarrow> npfloat" where
  "nanmedian xs = (let ys = filter (\<lambda>x. x \<noteq> NaN) xs in if ys = [] then NaN else median ys)"

text \<open>
  \<^verbatim>\<open>np.nanmax\<close> reduces the array with \<^verbatim>\<open>fmax\<close>, which keeps the other value when
  one is NaN; an array of length zero has nothing to reduce and raises \<^verbatim>\<open>ValueError\<close>.
\<close>

definition fmax :: "npfloat \<Rightarrow> npfloat \<Rightarrow> npfloat" where
  "fmax a b = (if a = NaN then b else if b = NaN then a else if fkey a < fkey b then b else a)"

definition nanmax :: "npfloat list \<Rightarrow> py_error + npfloat" where
  "nanmax xs = (case xs of [] \<Rightarrow> Inl ValueError | x # rest \<Rightarrow> Inr (fold (\<lambda>b a. fmax a b) rest x))"

section \<open>Paths and directory listings\<close>

text \<open>
  A run file is \<open>root/pilot_dir/file\<close>: the name of the pilot's directory and the
  name of the file. A listing gives, for each pilot directory under a root, the names
  of its \<^verbatim>\<open>*.csv\<close> files, in the order the file system returns them.
\<close>

type_synonym path = "string \<times> string"

type_synonym listing = "(string \<times> string list) list"

text \<open>
  \<^verbatim>\<open>Path.stem\<close>: the name up to its last dot, when that dot is neither the first
  nor the last character.
\<close>

definition stem :: "string \<Rightarrow> string" where
  "stem name =
     (let after = length (takeWhile (\<lambda>c. c \<noteq> CHR ''.'') (rev name))
      in if CHR ''.'' \<in> set name \<and> 0 < after \<and> after + 1 < length name
           then take (length name - 1 - after) name
         else name)"

text \<open>
  \<^verbatim>\<open>
  for pilot_dir in sorted([p for p in input_root.iterdir() if p.is_dir()]):
      csvs.extend(sorted(pilot_dir.glob("*.csv")))
  \<close>
\<close>

definition find_input_csvs :: "listing \<Rightarrow> path list" where
  "find_input_csvs input_root =
     concat (map (\<lambda>(pilot_dir, files). map (\<lambda>f. (pilot_dir, f)) (sort files))
                 (sort_key fst input_root))"

section \<open>Comparison aggregator\<close>

text \<open>
  \<^verbatim>\<open>
  if test_type not in test_data:
      test_data[test_type] = []
  test_data[test_type].append((pilot_short_name, csv_file))
  \<close>
  on a dictionary kept as the list of its items.
\<close>

fun dict_append :: "'k \<Rightarrow> 'v \<Rightarrow> ('k \<times> 'v list) list \<Rightarrow> ('k \<times> 'v list) list" where
  "dict_append k v [] = [(k, [v])]"
| "dict_append k v ((k', vs) # rest) =
     (if k = k' then (k', vs @ [v]) # rest else (k', vs) # dict_append k v rest)"

text \<open>The runs found under the output root, each with its pilot's short name and test type.\<close>

definition scan_runs :: "listing \<Rightarrow> (string \<times> string \<times> path) list" where
  "scan_runs csv_out_dir =
     concat (map (\<lambda>(pilot_dir, files).
                    map (\<lambda>f. (extract_test_type (stem f),
                               extract_pilot_short_name pilot_dir, (pilot_dir, f)))
                        (sort files))
                 (sort_key fst csv_out_dir))"

definition collect_test_data :: "listing \<Rightarrow> (string \<times> (string \<times> path) list) list" where
  "collect_test_data csv_out_dir =
     fold (\<lambda>(test_type, entry) test_data. dict_append test_type entry test_data)
          (scan_runs csv_out_dir) []"

text \<open>
  A series is drawn when the file can be read again and has both columns; anything
  raised on the way is caught and the series skipped.
\<close>

definition plottable :: "(path \<Rightarrow> py_error + frame) \<Rightarrow> path \<Rightarrow> bool" where
  "plottable read_csv csv_path =
     (case read_csv csv_path of
        Inl e \<Rightarrow> False
      | Inr df \<Rightarrow> (case and_then (get_series df ''time_s'') (\<lambda>x. get_series df ''torque4_nm'') of
                     Inl e \<Rightarrow> False | Inr y \<Rightarrow> True))"

record overlay =
  test_type :: string
  series :: "(string \<times> path) list"

text \<open>
  \<^verbatim>\<open>
  for test_type, pilot_files in sorted(test_data.items()):
      if test_type == 'Unknown':
          continue
      for idx, (pilot_name, csv_path) in enumerate(sorted(pilot_files)):
          try:
              df = pd.read_csv(csv_path)
              ax.plot(df["time_s"], df["torque4_nm"], label=pilot_name, ...)
          except Exception as e:
              continue
      fig.savefig(comparison_dir / f"{test_type}_Test_-_All_Pilots.png", dpi=150)
  \<close>
  An overlay is the test type with its series, each the label and the file drawn.
\<close>

definition create_comparison_plots ::
    "(path \<Rightarrow> py_error + frame) \<Rightarrow> listing \<Rightarrow> overlay list" where
  "create_comparison_plots read_csv csv_out_dir =
     map (\<lambda>(tt, pilot_files).
            \<lparr>test_type = tt,
             series = filter (\<lambda>(pilot_name, csv_path). plottable read_csv csv_path)
                             (sort pilot_files)\<rparr>)
         (filter (\<lambda>(tt, pilot_files). tt \<noteq> ''Unknown'')
                 (sort_key fst (collect_test_data csv_out_dir)))"

section \<open>Batch processor\<close>

record config =
  gear3_teeth :: int
  gear4_teeth :: int
  wheel2_radius_inches :: npfloat

text \<open>
  What the batch finds outside the program: the parsers, the input root and its
  files, and the output root as the comparison stage finds it.
\<close>

record env =
  parsers :: pandas
  input_root :: listing
  read_csv :: "path \<Rightarrow> py_error + frame"
  csv_out_dir :: listing
  read_out_csv :: "path \<Rightarrow> py_error + frame"

record summary_record =
  pilot :: string
  file_rel :: string
  out_csv :: string
  torque_median_nm :: npfloat
  torque_max_nm :: npfloat

text \<open>
  One round of the loop over \<^verbatim>\<open>csv_files\<close>, for a file that was read:
  \<^verbatim>\<open>
  df_torque = compute_torque_frame(df, gear3_teeth=..., gear4_teeth=..., wheel2_radius_m=...)
  df_torque.to_csv(out_csv, index=False)
  ax.plot(df_torque["time_s"], df_torque["torque4_nm"], label="Torque 4 (N.m)")
  summary_records.append({
      "pilot": pilot_name,
      "file": str(csv_path.relative_to(input_root_path)),
      "out_csv": str(out_csv.relative_to(output_root_path)),
      "torque_median_nm": float(np.nanmedian(df_torque["torque4_nm"].values)),
      "torque_max_nm": float(np.nanmax(df_torque["torque4_nm"].values)),
  })
  \<close>
  Writing the file and the picture is left to the file system.
\<close>

definition summarize_run ::
    "pandas \<Rightarrow> int \<Rightarrow> int \<Rightarrow> npfloat \<Rightarrow> path \<Rightarrow> frame \<Rightarrow> py_error + summary_record" where
  "summarize_run P g3 g4 wheel2_radius_m csv_path df =
     and_then (compute_torque_frame P df g3 g4 wheel2_radius_m) (\<lambda>df_torque.
     and_then (get_series df_torque ''time_s'') (\<lambda>plot_x.
     and_then (get_series df_torque ''torque4_nm'') (\<lambda>plot_y.
     and_then (float_series df_torque ''torque4_nm'') (\<lambda>values.
     and_then (nanmax values) (\<lambda>torque_max.
     Inr \<lparr>pilot = fst csv_path,
          file_rel = fst csv_path @ ''/'' @ snd csv_path,
          out_csv = ''csv/'' @ fst csv_path @ ''/'' @ snd csv_path,
          torque_median_nm = nanmedian values,
          torque_max_nm = torque_max\<rparr>)))))"

text \<open>
  \<^verbatim>\<open>
  for csv_path in csv_files:
      try:
          df = pd.read_csv(csv_path)
      except Exception as e:
          print(f"Failed to read {csv_path}: {e}")
          continue
      ...
  \<close>
  Only the reading is inside a \<^verbatim>\<open>try\<close>: an exception of the rest of the round leaves
  the loop and \<^verbatim>\<open>main\<close>.
\<close>

fun process_runs ::
    "env \<Rightarrow> int \<Rightarrow> int \<Rightarrow> npfloat \<Rightarrow> path list \<Rightarrow> summary_record list
       \<Rightarrow> py_error + summary_record list" where
  "process_runs E g3 g4 r [] summary_records = Inr summary_records"
| "process_runs E g3 g4 r (csv_path # csv_files) summary_records =
     (case read_csv E csv_path of
        Inl e \<Rightarrow> process_runs E g3 g4 r csv_files summary_records
      | Inr df \<Rightarrow>
          and_then (summarize_run (parsers E) g3 g4 r csv_path df) (\<lambda>new_record.
            process_runs E g3 g4 r csv_files (summary_records @ [new_record])))"

record outcome =
  exit_code :: int
  summary :: "summary_record list option"
  comparison :: "overlay list option"

text \<open>
  \<^verbatim>\<open>
  def main() -> int:
      ...
      wheel2_radius_m = wheel2_radius_inches * 0.0254
      csv_files = find_input_csvs(input_root_path)
      if not csv_files:
          return 1
      summary_records = []
      for csv_path in csv_files: ...
      summary_df = pd.DataFrame(summary_records)
      summary_df.to_csv(summary_csv, index=False)
      create_comparison_plots(csv_out_dir, output_root_path)
      return 0
  \<close>
  The result is the value returned with what was written, or the exception that
  left \<^verbatim>\<open>main\<close>.
\<close>

definition main :: "env \<Rightarrow> config \<Rightarrow> py_error + outcome" where
  "main E cfg =
     (let wheel2_radius_m = fmul (wheel2_radius_inches cfg) (Fin 0.0254);
          csv_files = find_input_csvs (input_root E)
      in if csv_files = [] then Inr \<lparr>exit_code = 1, summary = None, comparison = None\<rparr>
         else and_then (process_runs E (gear3_teeth cfg) (gear4_teeth cfg) wheel2_radius_m
                          csv_files []) (\<lambda>summary_records.
              Inr \<lparr>exit_code = 0, summary = Some summary_records,
                   comparison = Some (create_comparison_plots (read_out_csv E) (csv_out_dir E))\<rparr>))"

text \<open>
  \<^verbatim>\<open>
  if __name__ == "__main__":
      raise SystemExit(main())
  \<close>
  The exit status of the process is the value that \<^verbatim>\<open>main\<close> returns; when an
  exception leaves \<^verbatim>\<open>main\<close>, the interpreter prints it and exits with status 1.
\<close>

definition exit_status :: "env \<Rightarrow> config \<Rightarrow> int" where
  "exit_status E cfg = (case main E cfg of Inl e \<Rightarrow> 1 | Inr out \<Rightarrow> exit_code out)"

section \<open>Notions used in the statements\<close>

text \<open>
  The column \<open>col\<close> of a frame as the normalizer reads it: the column itself, or
  the one put in its place when the frame has none.
\<close>

definition input_series :: "frame \<Rightarrow> string \<Rightarrow> cell list" where
  "input_series df col =
     (if col \<in> set (columns df) then map (\<lambda>r. r col) (rows df)
      else replicate (length (rows df)) (if col = ''timestamp'' then Flt NaN else Flt (Fin 0)))"

definition time_values :: "pandas \<Rightarrow> cell list \<Rightarrow> npfloat list" where
  "time_values P col = (case time_base P col of Inr secs \<Rightarrow> secs | Inl e \<Rightarrow> arange (length col))"

definition gear_ratio :: "int \<Rightarrow> int \<Rightarrow> npfloat" where
  "gear_ratio g3 g4 = (if g3 \<noteq> 0 then Fin (real_of_int g4 / real_of_int g3) else NaN)"

definition speed_values :: "pandas \<Rightarrow> frame \<Rightarrow> npfloat list" where
  "speed_values P df =
     map (\<lambda>c. fmul (fillna (Fin 0) (to_numeric P c)) (Fin 0.44704)) (input_series df ''speed'')"

definition power_values :: "pandas \<Rightarrow> frame \<Rightarrow> npfloat list" where
  "power_values P df = map (\<lambda>c. fillna (Fin 0) (to_numeric P c)) (input_series df ''power'')"

definition torque_values :: "pandas \<Rightarrow> frame \<Rightarrow> int \<Rightarrow> int \<Rightarrow> npfloat \<Rightarrow> npfloat list" where
  "torque_values P df g3 g4 r =
     map2 (\<lambda>p s. fdiv (fmul (fmul p (gear_ratio g3 g4)) r) (replace_zero s))
       (power_values P df) (speed_values P df)"

text \<open>
  The gear counts for which the ratio can be computed: \<open>gear3_teeth\<close> is zero (the
  ratio is then NaN and nothing is converted), or both counts are within the range of
  a float.
\<close>

definition gears_in_range :: "int \<Rightarrow> int \<Rightarrow> bool" where
  "gears_in_range g3 g4 = (g3 = 0 \<or> (in_float_range g3 \<and> in_float_range g4))"

text \<open>The frame with the time, speed and power columns, before the torque is put in.\<close>

definition before_torque :: "pandas \<Rightarrow> frame \<Rightarrow> frame" where
  "before_torque P df =
     with_series ''power_w'' (map Flt (power_values P df))
       (with_series ''speed_mps'' (map Flt (speed_values P df))
          (with_series ''time_s'' (map Flt (time_values P (input_series df ''timestamp'')))
             (ensure_columns df)))"

text \<open>The values of a column that are not NaN.\<close>

definition defined_values :: "npfloat list \<Rightarrow> npfloat list" where
  "defined_values xs = filter (\<lambda>x. x \<noteq> NaN) xs"

section \<open>Sample data\<close>

text \<open>A frame from its column names and the cells of its rows.\<close>

definition mk_frame :: "string list \<Rightarrow> cell list list \<Rightarrow> frame" where
  "mk_frame cols cellss =
     \<lparr>columns = cols,
      rows = map (\<lambda>cells c. case map_of (zip cols cells) c of Some v \<Rightarrow> v | None \<Rightarrow> Flt NaN)
                 cellss\<rparr>"

text \<open>
  A parser of plain decimal numbers: an optional minus sign, digits, and an optional
  point with digits behind it. Any other text is no number.
\<close>

definition is_digit :: "char \<Rightarrow> bool" where
  "is_digit c = (let n = (of_char c :: nat) in 48 \<le> n \<and> n \<le> 57)"

definition digits_value :: "string \<Rightarrow> nat" where
  "digits_value s = fold (\<lambda>c n. 10 * n + ((of_char c :: nat) - 48)) s 0"

definition unsigned_decimal :: "string \<Rightarrow> real option" where
  "unsigned_decimal s =
     (let whole = takeWhile is_digit s; rest = dropWhile is_digit s
      in if rest = [] then (if whole = [] then None else Some (real (digits_value whole)))
         else if hd rest = CHR ''.'' \<and> list_all is_digit (tl rest)
                 \<and> (whole \<noteq> [] \<or> tl rest \<noteq> [])
           then Some (real (digits_value whole)
                      + real (digits_value (tl rest)) / 10 ^ length (tl rest))
         else None)"

definition sample_number :: "string \<Rightarrow> npfloat" where
  "sample_number s =
     (case s of
        [] \<Rightarrow> NaN
      | c # r \<Rightarrow>
          if c = CHR ''-''
          then (case unsigned_decimal r of None \<Rightarrow> NaN | Some x \<Rightarrow> Fin (- x))
          else (case unsigned_decimal s of None \<Rightarrow> NaN | Some x \<Rightarrow> Fin x))"

text \<open>
  A reader of times that knows four texts, each with its format and its time in
  nanoseconds since the epoch: two with a fraction of a second and two with a UTC
  offset (10:00 at +01:00 is 09:00 UTC). It reads a column as pandas does: the first
  text of the column gives the format, and a text of another format is no time; when
  the first text is no time at all, every text is read on its own. A number is a time
  in nanoseconds since the epoch, cut to a whole number.
\<close>

definition known_times :: "(string \<times> nat \<times> int) list" where
  "known_times =
     [(''2025-03-01 10:00:00.000'', 0, 1740823200000000000),
      (''2025-03-01 10:00:02.500'', 0, 1740823202500000000),
      (''2025-03-01 10:00:00+01:00'', 1, 1740819600000000000),
      (''2025-03-01 10:00:00+02:00'', 1, 1740816000000000000)]"

fun first_text :: "cell list \<Rightarrow> string option" where
  "first_text [] = None"
| "first_text (Text s # cs) = Some s"
| "first_text (Flt x # cs) = first_text cs"

definition column_format :: "cell list \<Rightarrow> nat option" where
  "column_format col =
     (case first_text col of
        None \<Rightarrow> None
      | Some s \<Rightarrow> (case map_of known_times s of None \<Rightarrow> None | Some (f, t) \<Rightarrow> Some f))"

definition sample_times :: "cell list \<Rightarrow> nat \<Rightarrow> int option" where
  "sample_times col i =
     (case col ! i of
        Flt x \<Rightarrow> (case x of Fin a \<Rightarrow> Some (if a < 0 then - \<lfloor>- a\<rfloor> else \<lfloor>a\<rfloor>) | _ \<Rightarrow> None)
      | Text s \<Rightarrow>
          (case map_of known_times s of
             None \<Rightarrow> None
           | Some (f, t) \<Rightarrow>
               (case column_format col of
                  None \<Rightarrow> Some t
                | Some g \<Rightarrow> if f = g then Some t else None)))"

text \<open>
  The time computation raises on a column of mixed UTC offsets: pandas keeps such
  times as objects, which have no \<^verbatim>\<open>.dt\<close>.
\<close>

definition mixed_offsets :: "cell list \<Rightarrow> bool" where
  "mixed_offsets col =
     (Text ''2025-03-01 10:00:00+01:00'' \<in> set col
      \<and> Text ''2025-03-01 10:00:00+02:00'' \<in> set col)"

definition sample_pandas :: pandas where
  "sample_pandas =
     \<lparr>text_to_number = sample_number, column_times = sample_times,
      time_raises = mixed_offsets\<rparr>"

text \<open>
  A run of three rows: the second has no readable time and no speed, the third a
  speed that is no number.
\<close>

definition sample_run :: frame where
  "sample_run =
     mk_frame [''timestamp'', ''speed'', ''power'']
       [[Text ''2025-03-01 10:00:02.500'', Text ''10'', Flt (Fin 100)],
        [Text ''not a time'', Text ''0'', Flt (Fin 50)],
        [Text ''2025-03-01 10:00:00.000'', Text ''fast'', Flt (Fin 12.5)]]"

text \<open>A run of two rows whose times have different UTC offsets.\<close>

definition mixed_offset_run :: frame where
  "mixed_offset_run =
     mk_frame [''timestamp'', ''speed'', ''power'']
       [[Text ''2025-03-01 10:00:00+01:00'', Flt (Fin 10), Flt (Fin 100)],
        [Text ''2025-03-01 10:00:00+02:00'', Flt (Fin 20), Flt (Fin 150)]]"

text \<open>A tooth count beyond the range of a float.\<close>

definition huge_teeth :: int where
  "huge_teeth = 10 ^ 400"

text \<open>A wheel radius of 15 cm.\<close>

definition sample_radius :: npfloat where
  "sample_radius = Fin 0.15"

text \<open>A run of two rows in which no time can be read.\<close>

definition unparsable_run :: frame where
  "unparsable_run =
     mk_frame [''timestamp'', ''speed'', ''power'']
       [[Text ''n/a'', Flt (Fin 10), Flt (Fin 100)],
        [Text ''n/a'', Flt (Fin 20), Flt (Fin 150)]]"

text \<open>A run with two rows and no column that the normalizer knows.\<close>

definition bare_run :: frame where
  "bare_run = mk_frame [''cadence''] [[Flt (Fin 80)], [Flt (Fin 85)]]"

text \<open>A file with the header line and no row.\<close>

definition header_only_run :: frame where
  "header_only_run = mk_frame [''timestamp'', ''speed'', ''power''] []"

section \<open>The classifier and the display name as the specification words them\<close>

text \<open>
  The specification's \<open>classify_test_type\<close>: the checks 250, 200, 150, Passive in this
  order, the first that matches wins; a wattage token matches when it occurs in the
  name, letter case ignored, and "passive" does not.
\<close>

definition wattage_matches :: "string \<Rightarrow> string \<Rightarrow> bool" where
  "wattage_matches token filename =
     (contains token (lower filename) \<and> \<not> contains ''passive'' (lower filename))"

definition classify_test_type_spec :: "string \<Rightarrow> string" where
  "classify_test_type_spec filename =
     (case find fst
             [(wattage_matches ''250'' filename, ''250W''),
              (wattage_matches ''200'' filename, ''200W''),
              (wattage_matches ''150'' filename, ''150W''),
              (contains ''passive'' (lower filename), ''Passive'')] of
        Some (matched, label) \<Rightarrow> label
      | None \<Rightarrow> ''Unknown'')"

text \<open>The one camel-boundary split, at the last character.\<close>

definition split_last_capital :: "string \<Rightarrow> string" where
  "split_last_capital name =
     (if 1 < length name \<and> isupper (last name) \<and> islower (last (butlast name))
      then butlast name @ '' '' @ [last name] else name)"

text \<open>
  The specification's \<open>display_name\<close>: only a " Tests" at the end of the name is
  taken off, then the split.
\<close>

definition ends_with :: "string \<Rightarrow> string \<Rightarrow> bool" where
  "ends_with suffix s = (length suffix \<le> length s \<and> drop (length s - length suffix) s = suffix)"

definition display_name_spec :: "string \<Rightarrow> string" where
  "display_name_spec pilot_dir_name =
     (let trimmed = strip pilot_dir_name;
          base = (if ends_with '' Tests'' trimmed
                  then take (length trimmed - length '' Tests'') trimmed else trimmed)
      in split_last_capital (strip base))"

section \<open>Notions and sample data for the batch and the comparison\<close>



text \<open>A run file loads when \<^verbatim>\<open>pd.read_csv\<close> does not raise on it.\<close>

definition loads :: "env \<Rightarrow> path \<Rightarrow> bool" where
  "loads E csv_path = (case read_csv E csv_path of Inl e \<Rightarrow> False | Inr df \<Rightarrow> True)"

definition relative_name :: "path \<Rightarrow> string" where
  "relative_name csv_path = fst csv_path @ ''/'' @ snd csv_path"

text \<open>A normalized run as the comparison stage reads it back.\<close>

definition normalized_run :: frame where
  "normalized_run =
     mk_frame [''time_s'', ''torque4_nm''] [[Flt (Fin 0), Flt (Fin 3)], [Flt (Fin 1), Flt NaN]]"

definition all_readable :: "path \<Rightarrow> py_error + frame" where
  "all_readable csv_path = Inr normalized_run"


text \<open>Two pilots; one file of the second cannot be read again, one has no test type.\<close>

definition two_pilot_dir :: listing where
  "two_pilot_dir =
     [(''BobK Tests'', [''notes.csv'', ''150W_run1.csv'', ''200W_broken.csv'']),
      (''Ann Tests'', [''Passive_run1.csv'', ''150W_run1.csv''])]"

definition read_unless_broken :: "path \<Rightarrow> py_error + frame" where
  "read_unless_broken csv_path =
     (if snd csv_path = ''200W_broken.csv'' then Inl OtherError else Inr normalized_run)"

text \<open>The default configuration of \<^verbatim>\<open>main\<close>.\<close>

definition default_config :: config where
  "default_config = \<lparr>gear3_teeth = 24, gear4_teeth = 48, wheel2_radius_inches = Fin 5.906\<rparr>"

text \<open>A batch of three runs, the second of which cannot be loaded.\<close>

definition sample_read :: "path \<Rightarrow> py_error + frame" where
  "sample_read csv_path =
     (if csv_path = (''Ann Tests'', ''150W_run1.csv'') then Inr sample_run
      else if csv_path = (''BobK Tests'', ''150W_run1.csv'') then Inr unparsable_run
      else Inl OtherError)"

definition sample_env :: env where
  "sample_env =
     \<lparr>parsers = sample_pandas,
      input_root = [(''BobK Tests'', [''150W_run1.csv'']),
                    (''Ann Tests'', [''200W_run1.csv'', ''150W_run1.csv''])],
      read_csv = sample_read,
      csv_out_dir = two_pilot_dir,
      read_out_csv = read_unless_broken\<rparr>"

text \<open>A batch of one run whose file has the header line and no row.\<close>

definition read_header_only :: "path \<Rightarrow> py_error + frame" where
  "read_header_only csv_path = Inr header_only_run"

definition header_only_env :: env where
  "header_only_env =
     \<lparr>parsers = sample_pandas,
      input_root = [(''Ann Tests'', [''150W_run1.csv''])],
      read_csv = read_header_only,
      csv_out_dir = [],
      read_out_csv = all_readable\<rparr>"

text \<open>
  A batch of three runs: the second cannot be loaded, the third has the header line
  and no row.
\<close>

definition read_with_empty :: "path \<Rightarrow> py_error + frame" where
  "read_with_empty csv_path =
     (if csv_path = (''Ann Tests'', ''150W_run1.csv'') then Inr sample_run
      else if csv_path = (''BobK Tests'', ''150W_run1.csv'') then Inr header_only_run
      else Inl OtherError)"

definition aborting_env :: env where
  "aborting_env =
     \<lparr>parsers = sample_pandas,
      input_root = [(''BobK Tests'', [''150W_run1.csv'']),
                    (''Ann Tests'', [''200W_run1.csv'', ''150W_run1.csv''])],
      read_csv = read_with_empty,
      csv_out_dir = [],
      read_out_csv = all_readable\<rparr>"

text \<open>An input root without any run.\<close>

definition empty_env :: env where
  "empty_env =
     \<lparr>parsers = sample_pandas, input_root = [(''Ann Tests'', [])], read_csv = sample_read,
      csv_out_dir = [], read_out_csv = all_readable\<rparr>"


section \<open>Reading and writing columns\<close>

lemma and_then_Inr [simp]: "and_then (Inr x) f = f x"
  by (simp add: and_then_def)

lemma and_then_Inl [simp]: "and_then (Inl e) f = Inl e"
  by (simp add: and_then_def)

lemma as_floats_map_Flt [simp]: "as_floats (map Flt xs) = Inr xs"
  by (induction xs) simp_all

lemma rows_with_series:
  "length vs = length (rows df) \<Longrightarrow> length (rows (with_series col vs df)) = length (rows df)"
  by (simp add: with_series_def)

lemma columns_with_series:
  "set (columns (with_series col vs df)) = insert col (set (columns df))"
  by (auto simp: with_series_def)

lemma map2_upd_same:
  "length rs = length vs \<Longrightarrow> map (\<lambda>r. r col) (map2 (\<lambda>r v. r(col := v)) rs vs) = vs"
  by (induction rs vs rule: list_induct2) simp_all

lemma map2_upd_other:
  "length rs = length vs \<Longrightarrow> c \<noteq> col \<Longrightarrow>
     map (\<lambda>r. r c) (map2 (\<lambda>r v. r(col := v)) rs vs) = map (\<lambda>r. r c) rs"
  by (induction rs vs rule: list_induct2) simp_all

lemma get_with_series_same:
  "length vs = length (rows df) \<Longrightarrow> get_series (with_series col vs df) col = Inr vs"
  by (simp add: get_series_def with_series_def map2_upd_same del: map_map)

lemma get_with_series_other:
  "length vs = length (rows df) \<Longrightarrow> c \<noteq> col \<Longrightarrow>
     get_series (with_series col vs df) c = get_series df c"
  by (simp add: get_series_def with_series_def map2_upd_other del: map_map)

lemma rows_set_scalar [simp]: "length (rows (set_scalar col v df)) = length (rows df)"
  by (simp add: set_scalar_def rows_with_series)

lemma get_set_scalar_same: "get_series (set_scalar col v df) col = Inr (replicate (length (rows df)) v)"
  by (simp add: set_scalar_def get_with_series_same)

lemma get_set_scalar_other: "c \<noteq> col \<Longrightarrow> get_series (set_scalar col v df) c = get_series df c"
  by (simp add: set_scalar_def get_with_series_other)

lemma rows_ensure_columns [simp]: "length (rows (ensure_columns df)) = length (rows df)"
  by (simp add: ensure_columns_def)

lemma get_absent: "col \<notin> set (columns df) \<Longrightarrow> get_series df col = Inl KeyError"
  by (simp add: get_series_def)
lemma get_present: "col \<in> set (columns df) \<Longrightarrow> get_series df col = Inr (map (\<lambda>r. r col) (rows df))"
  by (simp add: get_series_def)

lemma columns_set_scalar: "set (columns (set_scalar col v df)) = insert col (set (columns df))"
  by (simp add: set_scalar_def columns_with_series)

lemma get_ensure_timestamp:
  "get_series (ensure_columns df) ''timestamp'' = Inr (input_series df ''timestamp'')"
  apply (simp add: ensure_columns_def input_series_def get_set_scalar_same get_set_scalar_other
      columns_set_scalar)
  apply (simp add: get_series_def)
  done

lemma get_ensure_power:
  "get_series (ensure_columns df) ''power'' = Inr (input_series df ''power'')"
  apply (simp add: ensure_columns_def input_series_def get_set_scalar_same get_set_scalar_other
      columns_set_scalar)
  apply (simp add: get_series_def)
  done

lemma get_ensure_speed:
  "get_series (ensure_columns df) ''speed'' = Inr (input_series df ''speed'')"
  apply (simp add: ensure_columns_def input_series_def get_set_scalar_same get_set_scalar_other
      columns_set_scalar)
  apply (simp add: get_series_def)
  done


lemma length_input_series [simp]: "length (input_series df col) = length (rows df)"
  by (simp add: input_series_def)

lemma length_to_datetime [simp]: "length (to_datetime P col) = length col"
  by (simp add: to_datetime_def)

lemma length_time_values [simp]: "length (time_values P col) = length col"
  by (simp add: time_values_def time_base_def arange_def Let_def)

lemma ratio_guarded:
  "gears_in_range g3 g4 \<Longrightarrow>
     (if g3 \<noteq> 0 then and_then (py_float g3) (py_truediv g4) else Inr NaN)
       = Inr (gear_ratio g3 g4)"
  by (auto simp: gears_in_range_def py_float_def py_truediv_def gear_ratio_def)

lemma ratio_overflow:
  "\<not> gears_in_range g3 g4 \<Longrightarrow>
     (if g3 \<noteq> 0 then and_then (py_float g3) (py_truediv g4) else Inr NaN)
       = Inl OverflowError"
  by (auto simp: gears_in_range_def py_float_def py_truediv_def)

lemma float_with_series_same:
  "length xs = length (rows df) \<Longrightarrow> float_series (with_series col (map Flt xs) df) col = Inr xs"
  by (simp add: float_series_def get_with_series_same)

lemma float_with_series_other:
  "length vs = length (rows df) \<Longrightarrow> c \<noteq> col \<Longrightarrow>
     float_series (with_series col vs df) c = float_series df c"
  by (simp add: float_series_def get_with_series_other)

lemma set_series_ok:
  "length vs = length (rows df) \<Longrightarrow> set_series col vs df = Inr (with_series col vs df)"
  by (simp add: set_series_def)

lemma compute_torque_frame_steps:
  "compute_torque_frame P df g3 g4 r =
     and_then (if g3 \<noteq> 0 then and_then (py_float g3) (py_truediv g4) else Inr NaN)
       (\<lambda>ratio. set_series ''torque4_nm''
                   (map2 (\<lambda>p s. Flt (fdiv (fmul (fmul p ratio) r) (replace_zero s)))
                         (power_values P df) (speed_values P df))
                   (before_torque P df))
   \<and> length (rows (before_torque P df)) = length (rows df)
   \<and> float_series (before_torque P df) ''time_s''
       = Inr (time_values P (input_series df ''timestamp''))
   \<and> float_series (before_torque P df) ''speed_mps'' = Inr (speed_values P df)
   \<and> float_series (before_torque P df) ''power_w'' = Inr (power_values P df)
   \<and> get_series (before_torque P df) ''timestamp'' = Inr (input_series df ''timestamp'')
   \<and> get_series (before_torque P df) ''power'' = Inr (input_series df ''power'')
   \<and> get_series (before_torque P df) ''speed'' = Inr (input_series df ''speed'')"
proof -
  let ?n = "length (rows df)"
  define df1 where "df1 = ensure_columns df"
  define tv where "tv = time_values P (input_series df ''timestamp'')"
  define df2 where "df2 = with_series ''time_s'' (map Flt tv) df1"
  define df3 where "df3 = with_series ''speed_mps'' (map Flt (speed_values P df)) df2"
  define df4 where "df4 = with_series ''power_w'' (map Flt (power_values P df)) df3"
  have bt: "before_torque P df = df4"
    by (simp add: before_torque_def df4_def df3_def df2_def df1_def tv_def)
  have n1: "length (rows df1) = ?n" by (simp add: df1_def)
  have ltv: "length tv = ?n" by (simp add: tv_def)
  have n2: "length (rows df2) = ?n" by (simp add: df2_def rows_with_series n1 ltv)
  have lsv: "length (speed_values P df) = ?n" by (simp add: speed_values_def)
  have lpv: "length (power_values P df) = ?n" by (simp add: power_values_def)
  have n3: "length (rows df3) = ?n" by (simp add: df3_def rows_with_series n2 lsv)
  have n4: "length (rows df4) = ?n" by (simp add: df4_def rows_with_series n3 lpv)
  have g1: "get_series df1 ''timestamp'' = Inr (input_series df ''timestamp'')"
    by (simp add: df1_def get_ensure_timestamp)
  have s2: "set_series ''time_s'' (map Flt tv) df1 = Inr df2"
    by (simp add: set_series_ok df2_def n1 ltv)
  have hv: "(case time_base P (input_series df ''timestamp'') of
               Inl e \<Rightarrow> arange (length (rows df1)) | Inr secs \<Rightarrow> secs) = tv"
    by (simp add: tv_def time_values_def n1 split: sum.splits)
  have g2: "get_series df2 ''speed'' = Inr (input_series df ''speed'')"
    by (simp add: df2_def get_with_series_other n1 ltv) (simp add: df1_def get_ensure_speed)
  have s3: "set_series ''speed_mps'' (map Flt (speed_values P df)) df2 = Inr df3"
    by (simp add: set_series_ok df3_def n2 lsv)
  have g3a: "get_series df2 ''power'' = Inr (input_series df ''power'')"
    by (simp add: df2_def get_with_series_other n1 ltv) (simp add: df1_def get_ensure_power)
  have g3: "get_series df3 ''power'' = Inr (input_series df ''power'')"
    by (simp add: df3_def get_with_series_other n2 lsv g3a)
  have s4: "set_series ''power_w'' (map Flt (power_values P df)) df3 = Inr df4"
    by (simp add: set_series_ok df4_def n3 lpv)
  have f3s: "float_series df3 ''speed_mps'' = Inr (speed_values P df)"
    by (simp add: df3_def float_with_series_same n2 lsv)
  have f4p: "float_series df4 ''power_w'' = Inr (power_values P df)"
    by (simp add: df4_def float_with_series_same n3 lpv)
  have f4s: "float_series df4 ''speed_mps'' = Inr (speed_values P df)"
    by (simp add: df4_def float_with_series_other n3 lpv f3s)
  have s3': "set_series ''speed_mps''
               (map (\<lambda>c. Flt (fmul (fillna (Fin 0) (to_numeric P c)) (Fin 0.44704)))
                    (input_series df ''speed'')) df2 = Inr df3"
    using s3 unfolding speed_values_def map_map o_def .
  have s4': "set_series ''power_w''
               (map (\<lambda>c. Flt (fillna (Fin 0) (to_numeric P c))) (input_series df ''power'')) df3
             = Inr df4"
    using s4 unfolding power_values_def map_map o_def .
  have run: "compute_torque_frame P df g3 g4 r =
     and_then (if g3 \<noteq> 0 then and_then (py_float g3) (py_truediv g4) else Inr NaN)
       (\<lambda>ratio. set_series ''torque4_nm''
                   (map2 (\<lambda>p s. Flt (fdiv (fmul (fmul p ratio) r) (replace_zero s)))
                         (power_values P df) (speed_values P df))
                   df4)"
    unfolding compute_torque_frame_def Let_def df1_def [symmetric]
    by (simp only: g1 and_then_Inr hv s2 g2 s3' g3 s4' f4p f4s)
  have f2t: "float_series df2 ''time_s'' = Inr tv"
    by (simp add: df2_def float_with_series_same n1 ltv)
  have f3t: "float_series df3 ''time_s'' = Inr tv"
    by (simp add: df3_def float_with_series_other n2 lsv f2t)
  have f4t: "float_series df4 ''time_s'' = Inr tv"
    by (simp add: df4_def float_with_series_other n3 lpv f3t)
  have r1: "get_series df4 ''timestamp'' = Inr (input_series df ''timestamp'')"
    by (simp add: df4_def df3_def df2_def get_with_series_other rows_with_series
        n1 ltv lsv lpv g1)
  have p1: "get_series df1 ''power'' = Inr (input_series df ''power'')"
    by (simp add: df1_def get_ensure_power)
  have r2: "get_series df4 ''power'' = Inr (input_series df ''power'')"
    by (simp add: df4_def df3_def df2_def get_with_series_other rows_with_series
        n1 ltv lsv lpv p1)
  have q1: "get_series df1 ''speed'' = Inr (input_series df ''speed'')"
    by (simp add: df1_def get_ensure_speed)
  have r3: "get_series df4 ''speed'' = Inr (input_series df ''speed'')"
    by (simp add: df4_def df3_def df2_def get_with_series_other rows_with_series
        n1 ltv lsv lpv q1)
  show ?thesis
    unfolding bt using run n4 f4t f4s f4p r1 r2 r3 by (simp add: tv_def)
qed

lemma compute_torque_frame_overflow:
  assumes "\<not> gears_in_range g3 g4"
  shows "compute_torque_frame P df g3 g4 r = Inl OverflowError"
proof -
  have ratio: "(if g3 \<noteq> 0 then and_then (py_float g3) (py_truediv g4) else Inr NaN)
                 = Inl OverflowError"
    using assms by (rule ratio_overflow)
  show ?thesis
    by (simp only: compute_torque_frame_steps [THEN conjunct1] ratio and_then_Inl)
qed

lemma compute_torque_frame_normal_form:
  assumes "gears_in_range g3 g4"
  shows "\<exists>out. compute_torque_frame P df g3 g4 r = Inr out
     \<and> length (rows out) = length (rows df)
     \<and> float_series out ''time_s'' = Inr (time_values P (input_series df ''timestamp''))
     \<and> float_series out ''speed_mps'' = Inr (speed_values P df)
     \<and> float_series out ''power_w'' = Inr (power_values P df)
     \<and> float_series out ''torque4_nm'' = Inr (torque_values P df g3 g4 r)
     \<and> get_series out ''timestamp'' = Inr (input_series df ''timestamp'')
     \<and> get_series out ''power'' = Inr (input_series df ''power'')
     \<and> get_series out ''speed'' = Inr (input_series df ''speed'')"
proof -
  let ?n = "length (rows df)"
  let ?df4 = "before_torque P df"
  define out where "out = with_series ''torque4_nm'' (map Flt (torque_values P df g3 g4 r)) ?df4"
  note steps = compute_torque_frame_steps [of P df g3 g4 r]
  have n4: "length (rows ?df4) = ?n" using steps by simp
  have ltq: "length (torque_values P df g3 g4 r) = ?n"
    by (simp add: torque_values_def speed_values_def power_values_def)
  have n5: "length (rows out) = ?n" by (simp add: out_def rows_with_series n4 ltq)
  have s5: "set_series ''torque4_nm'' (map Flt (torque_values P df g3 g4 r)) ?df4 = Inr out"
    by (simp add: set_series_ok out_def n4 ltq)
  have s5': "set_series ''torque4_nm''
        (map2 (\<lambda>p s. Flt (fdiv (fmul (fmul p (gear_ratio g3 g4)) r) (replace_zero s)))
              (power_values P df) (speed_values P df)) ?df4 = Inr out"
    using s5 by (simp add: torque_values_def o_def split_def)
  have run: "compute_torque_frame P df g3 g4 r = Inr out"
    by (simp only: steps [THEN conjunct1] ratio_guarded [OF assms] and_then_Inr s5')
  have o1: "float_series out ''torque4_nm'' = Inr (torque_values P df g3 g4 r)"
    by (simp add: out_def float_with_series_same n4 ltq)
  have o2: "float_series out ''power_w'' = Inr (power_values P df)"
    using steps by (simp add: out_def float_with_series_other n4 ltq)
  have o3: "float_series out ''speed_mps'' = Inr (speed_values P df)"
    using steps by (simp add: out_def float_with_series_other n4 ltq)
  have o4: "float_series out ''time_s'' = Inr (time_values P (input_series df ''timestamp''))"
    using steps by (simp add: out_def float_with_series_other n4 ltq)
  have r1: "get_series out ''timestamp'' = Inr (input_series df ''timestamp'')"
    using steps by (simp add: out_def get_with_series_other n4 ltq)
  have r2: "get_series out ''power'' = Inr (input_series df ''power'')"
    using steps by (simp add: out_def get_with_series_other n4 ltq)
  have r3: "get_series out ''speed'' = Inr (input_series df ''speed'')"
    using steps by (simp add: out_def get_with_series_other n4 ltq)
  show ?thesis
    using run n5 o1 o2 o3 o4 r1 r2 r3 by simp
qed

lemma compute_torque_frame_returns_iff:
  "(\<exists>out. compute_torque_frame P df g3 g4 r = Inr out) \<longleftrightarrow> gears_in_range g3 g4"
  using compute_torque_frame_normal_form [of g3 g4 P df r]
    compute_torque_frame_overflow [of g3 g4 P df r]
  by (cases "gears_in_range g3 g4") auto

section \<open>The torque formula\<close>

lemma nth_torque_values:
  assumes "i < length (rows df)"
  shows "torque_values P df g3 g4 r ! i =
           fdiv (fmul (fmul (power_values P df ! i) (gear_ratio g3 g4)) r)
                (replace_zero (speed_values P df ! i))"
  using assms by (simp add: torque_values_def power_values_def speed_values_def)

lemma length_speed_values [simp]: "length (speed_values P df) = length (rows df)"
  by (simp add: speed_values_def)

lemma length_power_values [simp]: "length (power_values P df) = length (rows df)"
  by (simp add: power_values_def)

lemma length_torque_values [simp]: "length (torque_values P df g3 g4 r) = length (rows df)"
  by (simp add: torque_values_def)

lemma in_float_range_24: "in_float_range 24" "in_float_range 48"
  by (simp_all add: in_float_range_def float_limit_def)

lemma gears_24_48: "gears_in_range 24 48" "gears_in_range 0 48"
  by (simp_all add: gears_in_range_def in_float_range_24)

lemma huge_teeth_out_of_range: "\<not> in_float_range huge_teeth"
  by (simp add: in_float_range_def float_limit_def huge_teeth_def)

text \<open>
  Claim C1. With \<open>gear3_teeth \<noteq> 0\<close>, the normalizer returns a frame when both gear
  counts are within the range of a float, and in every frame it returns, in every row
  whose \<open>speed_mps\<close> is not zero, \<open>torque4_nm\<close> is \<open>power_w * (gear4_teeth / gear3_teeth)
  * wheel2_radius_m / speed_mps\<close>, computed in that order with the arithmetic of the
  floats and nothing clamped; on finite values this is the real number of the formula.
\<close>

theorem torque_formula_exact:
  assumes "g3 \<noteq> 0"
  shows "(in_float_range g3 \<and> in_float_range g4 \<longrightarrow>
            (\<exists>out. compute_torque_frame P df g3 g4 r = Inr out))
    \<and> (\<forall>out. compute_torque_frame P df g3 g4 r = Inr out \<longrightarrow>
         (\<exists>power speed torque.
              float_series out ''power_w'' = Inr power
            \<and> float_series out ''speed_mps'' = Inr speed
            \<and> float_series out ''torque4_nm'' = Inr torque
            \<and> length power = nrows df \<and> length speed = nrows df \<and> length torque = nrows df
            \<and> (\<forall>i<nrows df. speed ! i \<noteq> Fin 0 \<longrightarrow>
                  torque ! i =
                    fdiv (fmul (fmul (power ! i) (Fin (real_of_int g4 / real_of_int g3))) r)
                         (speed ! i))
            \<and> (\<forall>i<nrows df. \<forall>p s w.
                  power ! i = Fin p \<and> speed ! i = Fin s \<and> s \<noteq> 0 \<and> r = Fin w \<longrightarrow>
                  torque ! i = Fin (p * (real_of_int g4 / real_of_int g3) * w / s))))"
proof -
  have returns: "in_float_range g3 \<and> in_float_range g4 \<longrightarrow>
            (\<exists>out. compute_torque_frame P df g3 g4 r = Inr out)"
    using compute_torque_frame_returns_iff [of P df g3 g4 r] by (simp add: gears_in_range_def)
  have ratio: "gear_ratio g3 g4 = Fin (real_of_int g4 / real_of_int g3)"
    using assms by (simp add: gear_ratio_def)
  have general: "torque_values P df g3 g4 r ! i =
      fdiv (fmul (fmul (power_values P df ! i) (Fin (real_of_int g4 / real_of_int g3))) r)
           (speed_values P df ! i)"
    if "i < nrows df" "speed_values P df ! i \<noteq> Fin 0" for i
    using that by (simp add: nth_torque_values nrows_def ratio replace_zero_def)
  have finite: "torque_values P df g3 g4 r ! i = Fin (p * (real_of_int g4 / real_of_int g3) * w / s)"
    if "i < nrows df" "power_values P df ! i = Fin p" "speed_values P df ! i = Fin s" "s \<noteq> 0"
       "r = Fin w" for i p s w
    using that by (simp add: nth_torque_values nrows_def ratio replace_zero_def)
  have rows: "\<exists>power speed torque.
              float_series out ''power_w'' = Inr power
            \<and> float_series out ''speed_mps'' = Inr speed
            \<and> float_series out ''torque4_nm'' = Inr torque
            \<and> length power = nrows df \<and> length speed = nrows df \<and> length torque = nrows df
            \<and> (\<forall>i<nrows df. speed ! i \<noteq> Fin 0 \<longrightarrow>
                  torque ! i =
                    fdiv (fmul (fmul (power ! i) (Fin (real_of_int g4 / real_of_int g3))) r)
                         (speed ! i))
            \<and> (\<forall>i<nrows df. \<forall>p s w.
                  power ! i = Fin p \<and> speed ! i = Fin s \<and> s \<noteq> 0 \<and> r = Fin w \<longrightarrow>
                  torque ! i = Fin (p * (real_of_int g4 / real_of_int g3) * w / s))"
    if ret: "compute_torque_frame P df g3 g4 r = Inr out" for out
  proof -
    from ret have "gears_in_range g3 g4"
      using compute_torque_frame_returns_iff [of P df g3 g4 r] by blast
    from compute_torque_frame_normal_form [OF this, of P df r] ret
    have sp: "float_series out ''speed_mps'' = Inr (speed_values P df)"
      and pw: "float_series out ''power_w'' = Inr (power_values P df)"
      and tq: "float_series out ''torque4_nm'' = Inr (torque_values P df g3 g4 r)"
      by auto
    show ?thesis
      apply (rule exI [of _ "power_values P df"])
      apply (rule exI [of _ "speed_values P df"])
      apply (rule exI [of _ "torque_values P df g3 g4 r"])
      using sp pw tq general finite
      apply (simp add: nrows_def)
      done
  qed
  from returns rows show ?thesis
    by blast
qed

lemma sample_number_values:
  "sample_number ''10'' = Fin 10" "sample_number ''0'' = Fin 0" "sample_number ''fast'' = NaN"
  by code_simp+

lemma sample_run_speed: "speed_values sample_pandas sample_run = [Fin 4.4704, Fin 0, Fin 0]"
  by (simp add: speed_values_def input_series_def sample_run_def mk_frame_def to_numeric_def
      sample_pandas_def sample_number_values fillna_def)

lemma sample_run_power: "power_values sample_pandas sample_run = [Fin 100, Fin 50, Fin 12.5]"
  by (simp add: power_values_def input_series_def sample_run_def mk_frame_def to_numeric_def
      sample_pandas_def fillna_def)

theorem torque_formula_exact_witness:
  "(24::int) \<noteq> 0 \<and> in_float_range 24 \<and> in_float_range 48 \<and>
   (\<exists>out speed torque.
      compute_torque_frame sample_pandas sample_run 24 48 (Fin 0.15) = Inr out
    \<and> float_series out ''speed_mps'' = Inr speed
    \<and> float_series out ''torque4_nm'' = Inr torque
    \<and> (0::nat) < nrows sample_run \<and> speed ! 0 = Fin 4.4704 \<and> speed ! 0 \<noteq> Fin 0
    \<and> torque ! 0 = Fin (100 * (48 / 24) * 0.15 / 4.4704))"
proof -
  note T = torque_formula_exact [of 24 48 sample_pandas sample_run "Fin 0.15"]
  have nz: "(24::int) \<noteq> 0" by simp
  from T [OF nz, THEN conjunct1] in_float_range_24
  obtain out where out: "compute_torque_frame sample_pandas sample_run 24 48 (Fin 0.15) = Inr out"
    by blast
  from T [OF nz, THEN conjunct2, rule_format, OF out]
  obtain power speed torque where
        pw: "float_series out ''power_w'' = Inr power"
    and sp: "float_series out ''speed_mps'' = Inr speed"
    and tq: "float_series out ''torque4_nm'' = Inr torque"
    and fin: "\<forall>i<nrows sample_run. \<forall>p s w.
                power ! i = Fin p \<and> speed ! i = Fin s \<and> s \<noteq> 0 \<and> Fin 0.15 = Fin w \<longrightarrow>
                torque ! i = Fin (p * (real_of_int 48 / real_of_int 24) * w / s)"
    by blast
  obtain out' where "compute_torque_frame sample_pandas sample_run 24 48 (Fin 0.15) = Inr out'"
    and "float_series out' ''speed_mps'' = Inr (speed_values sample_pandas sample_run)"
    and "float_series out' ''power_w'' = Inr (power_values sample_pandas sample_run)"
    using compute_torque_frame_normal_form [OF gears_24_48(1), of sample_pandas sample_run
        "Fin 0.15"] by blast
  with out sp pw have speed: "speed = [Fin 4.4704, Fin 0, Fin 0]"
    and power: "power = [Fin 100, Fin 50, Fin 12.5]"
    by (simp_all add: sample_run_speed sample_run_power)
  have n: "nrows sample_run = 3"
    by (simp add: nrows_def sample_run_def mk_frame_def)
  have "torque ! 0 = Fin (100 * (real_of_int 48 / real_of_int 24) * 0.15 / 4.4704)"
    using fin [rule_format, of 0 100 "4.4704" "0.15"] by (simp add: n speed power)
  then show ?thesis
    using out sp tq in_float_range_24 by (simp add: n speed)
qed

section \<open>Undefined torque and the summary\<close>

lemma fold_fmax_defined:
  "(if defined_values (x # rest) = [] then fold (\<lambda>b a. fmax a b) rest x = NaN
    else fold (\<lambda>b a. fmax a b) rest x \<in> set (defined_values (x # rest))
       \<and> (\<forall>y\<in>set (defined_values (x # rest)). fkey y \<le> fkey (fold (\<lambda>b a. fmax a b) rest x)))"
proof (induction rest arbitrary: x)
  case Nil
  then show ?case by (simp add: defined_values_def)
next
  case (Cons y rest)
  show ?case
    using Cons.IH [of "fmax x y"]
    by (auto simp: defined_values_def fmax_def split: if_splits)
qed

lemma nanmax_nonempty:
  assumes "xs \<noteq> []"
  shows "\<exists>m. nanmax xs = Inr m
           \<and> (if defined_values xs = [] then m = NaN
              else m \<in> set (defined_values xs) \<and> (\<forall>y\<in>set (defined_values xs). fkey y \<le> fkey m))"
proof (cases xs)
  case Nil
  with assms show ?thesis by simp
next
  case (Cons x rest)
  then show ?thesis
    using fold_fmax_defined [of x rest] by (simp add: nanmax_def)
qed

lemma nanmedian_defined:
  "nanmedian xs = (if defined_values xs = [] then NaN else median (defined_values xs))"
  by (simp add: nanmedian_def defined_values_def Let_def)

lemma defined_values_empty_iff: "defined_values xs = [] \<longleftrightarrow> (\<forall>x\<in>set xs. x = NaN)"
  by (auto simp: defined_values_def filter_empty_conv)

lemma torque_undefined_at:
  assumes "i < length (rows df)" "speed_values P df ! i = Fin 0 \<or> g3 = 0"
  shows "torque_values P df g3 g4 r ! i = NaN"
proof -
  have "fdiv x NaN = NaN" for x by (cases x) simp_all
  moreover have "fmul (fmul x NaN) r = NaN" for x by (cases x; cases r) simp_all
  ultimately show ?thesis
    using assms by (auto simp: nth_torque_values replace_zero_def gear_ratio_def)
qed

lemma float_series_get:
  "float_series df col = Inr xs \<Longrightarrow> \<exists>cs. get_series df col = Inr cs"
  by (cases "get_series df col") (simp_all add: float_series_def)

lemma summarize_run_unfold:
  assumes "gears_in_range g3 g4"
  shows "summarize_run P g3 g4 r p df =
           and_then (nanmax (torque_values P df g3 g4 r)) (\<lambda>torque_max.
             Inr \<lparr>pilot = fst p,
                  file_rel = fst p @ ''/'' @ snd p,
                  out_csv = ''csv/'' @ fst p @ ''/'' @ snd p,
                  torque_median_nm = nanmedian (torque_values P df g3 g4 r),
                  torque_max_nm = torque_max\<rparr>)"
proof -
  obtain out where out: "compute_torque_frame P df g3 g4 r = Inr out"
    and tm: "float_series out ''time_s'' = Inr (time_values P (input_series df ''timestamp''))"
    and tq: "float_series out ''torque4_nm'' = Inr (torque_values P df g3 g4 r)"
    using compute_torque_frame_normal_form [OF assms, of P df r] by blast
  obtain xs ys where xs: "get_series out ''time_s'' = Inr xs"
    and ys: "get_series out ''torque4_nm'' = Inr ys"
    using float_series_get [OF tm] float_series_get [OF tq] by blast
  show ?thesis
    by (simp add: summarize_run_def out xs ys tq)
qed

lemma summarize_run_empty:
  assumes "gears_in_range g3 g4" and "rows df = []"
  shows "summarize_run P g3 g4 r p df = Inl ValueError"
proof -
  have "length (torque_values P df g3 g4 r) = length (rows df)"
    by simp
  with assms(2) have "torque_values P df g3 g4 r = []"
    by (metis length_0_conv list.size(3))
  then show ?thesis
    by (simp add: summarize_run_unfold [OF assms(1)] nanmax_def)
qed

text \<open>
  What holds of the summary of a run that has a row: the median and the maximum of the
  record are those of the defined torque values alone, and both are NaN when no torque
  value is defined; a row with zero speed, or any row when \<open>gear3_teeth\<close> is zero, has an
  undefined torque.
\<close>

lemma summary_ignores_undefined:
  assumes "gears_in_range g3 g4" and "rows df \<noteq> []"
  shows "\<exists>rec. summarize_run P g3 g4 r p df = Inr rec
          \<and> torque_median_nm rec =
               (if defined_values (torque_values P df g3 g4 r) = [] then NaN
                else median (defined_values (torque_values P df g3 g4 r)))
          \<and> (if defined_values (torque_values P df g3 g4 r) = [] then torque_max_nm rec = NaN
              else torque_max_nm rec \<in> set (defined_values (torque_values P df g3 g4 r))
                 \<and> (\<forall>y\<in>set (defined_values (torque_values P df g3 g4 r)).
                       fkey y \<le> fkey (torque_max_nm rec)))
          \<and> (\<forall>i<nrows df. speed_values P df ! i = Fin 0 \<or> g3 = 0 \<longrightarrow>
                torque_values P df g3 g4 r ! i = NaN)"
proof -
  let ?t = "torque_values P df g3 g4 r"
  have "length ?t = length (rows df)"
    by simp
  with assms(2) have ne: "?t \<noteq> []"
    by (metis length_0_conv)
  obtain m where m: "nanmax ?t = Inr m"
    and mm: "if defined_values ?t = [] then m = NaN
             else m \<in> set (defined_values ?t) \<and> (\<forall>y\<in>set (defined_values ?t). fkey y \<le> fkey m)"
    using nanmax_nonempty [OF ne] by blast
  have rows: "\<forall>i<nrows df. speed_values P df ! i = Fin 0 \<or> g3 = 0 \<longrightarrow> ?t ! i = NaN"
    using torque_undefined_at [of _ df P g3 g4 r] by (simp add: nrows_def)
  show ?thesis
    using m mm rows
    by (simp add: summarize_run_unfold [OF assms(1)] nanmedian_defined)
qed

lemma nrows_sample_run: "nrows sample_run = 3"
  by (simp add: nrows_def sample_run_def mk_frame_def)

lemma rows_header_only: "rows header_only_run = []"
  by (simp add: header_only_run_def mk_frame_def)

text \<open>
  Claim C2, evaluated on the code. A run that has the header line and no row: the
  normalizer returns a frame whose torque column is empty, so that every torque value
  of the run is undefined and the claim has the median and the maximum of the summary
  undefined. \<^verbatim>\<open>np.nanmedian\<close> is NaN, but \<^verbatim>\<open>np.nanmax\<close> raises \<^verbatim>\<open>ValueError\<close>: the run gets
  no summary record, with no \<open>torque_median_nm\<close> and no \<open>torque_max_nm\<close>.
\<close>

theorem empty_run_has_no_summary:
  "nrows header_only_run = 0
   \<and> (\<exists>out. compute_torque_frame sample_pandas header_only_run 24 48 sample_radius = Inr out
          \<and> float_series out ''torque4_nm'' = Inr [])
   \<and> defined_values [] = []
   \<and> nanmedian [] = NaN
   \<and> nanmax [] = Inl ValueError
   \<and> summarize_run sample_pandas 24 48 sample_radius (''Ann Tests'', ''150W_run1.csv'')
        header_only_run = Inl ValueError"
proof -
  have a: "nrows header_only_run = 0"
    by (simp add: nrows_def rows_header_only)
  have "torque_values sample_pandas header_only_run 24 48 sample_radius = []"
    by (simp add: torque_values_def power_values_def input_series_def rows_header_only)
  then have b: "\<exists>out. compute_torque_frame sample_pandas header_only_run 24 48 sample_radius
                        = Inr out
          \<and> float_series out ''torque4_nm'' = Inr []"
    using compute_torque_frame_normal_form [OF gears_24_48(1), of sample_pandas header_only_run
        sample_radius]
    by auto
  have c: "defined_values [] = []" "nanmedian [] = NaN" "nanmax [] = Inl ValueError"
    by (simp_all add: defined_values_def nanmedian_def nanmax_def)
  have d: "summarize_run sample_pandas 24 48 sample_radius (''Ann Tests'', ''150W_run1.csv'')
             header_only_run = Inl ValueError"
    by (rule summarize_run_empty [OF gears_24_48(1) rows_header_only])
  from a b c d show ?thesis
    by (intro conjI)
qed

section \<open>The time base and totality of the normalizer\<close>

lemma set_dropna: "set (List.map_filter (\<lambda>t. t) ts) = {t. Some t \<in> set ts}"
  by (auto simp: map_filter_def image_iff) (metis option.sel)

lemma time_values_parsed:
  assumes "\<not> time_raises P col" and "j < length col" and "to_datetime P col ! j \<noteq> None"
  shows "\<exists>t0. (\<exists>j<length col. to_datetime P col ! j = Some t0)
            \<and> (\<forall>j<length col. \<forall>t. to_datetime P col ! j = Some t \<longrightarrow> t0 \<le> t)
            \<and> time_values P col = map (\<lambda>t. elapsed_seconds t (Some t0)) (to_datetime P col)"
proof -
  let ?ts = "to_datetime P col"
  let ?parsed = "List.map_filter (\<lambda>t. t) ?ts"
  have len: "length ?ts = length col"
    by simp
  have mem: "t \<in> set ?parsed \<longleftrightarrow> (\<exists>j<length col. ?ts ! j = Some t)" for t
    using len by (simp add: set_dropna in_set_conv_nth)
  obtain t where "?ts ! j = Some t"
    using assms(3) by auto
  with assms(2) have "t \<in> set ?parsed"
    using mem by blast
  then have ne: "?parsed \<noteq> []"
    by auto
  define t0 where "t0 = Min (set ?parsed)"
  have "t0 \<in> set ?parsed"
    unfolding t0_def using ne by (intro Min_in) simp_all
  then have a: "\<exists>j<length col. ?ts ! j = Some t0"
    using mem by blast
  have b: "\<forall>j<length col. \<forall>t. ?ts ! j = Some t \<longrightarrow> t0 \<le> t"
  proof (intro allI impI)
    fix j t assume "j < length col" "?ts ! j = Some t"
    then have "t \<in> set ?parsed" using mem by blast
    then show "t0 \<le> t" unfolding t0_def by (intro Min_le) simp_all
  qed
  have c: "time_values P col = map (\<lambda>t. elapsed_seconds t (Some t0)) ?ts"
    using assms(1) ne by (simp add: time_values_def time_base_def Let_def t0_def)
  from a b c show ?thesis by blast
qed

lemma time_values_raises: "time_raises P col \<Longrightarrow> time_values P col = arange (length col)"
  by (simp add: time_values_def time_base_def)

text \<open>
  Claim C4, amended. The normalizer returns a frame when the gear counts allow it. In
  every frame it returns, with the times that \<^verbatim>\<open>pd.to_datetime\<close> reads from the timestamp
  column: when the time computation does not raise and at least one row has a time,
  there is a least time \<open>t0\<close> of the run, every row with a time \<open>t\<close> has
  \<open>time_s = (t - t0)\<close> in seconds, and every row without a time has an undefined
  \<open>time_s\<close>; when the time computation raises, \<open>time_s\<close> is the number of the row.
\<close>

theorem time_base_from_earliest:
  "(gears_in_range g3 g4 \<longrightarrow> (\<exists>out. compute_torque_frame P df g3 g4 r = Inr out))
   \<and> (\<forall>out. compute_torque_frame P df g3 g4 r = Inr out \<longrightarrow>
        (\<exists>col ts secs.
            get_series out ''timestamp'' = Inr col
          \<and> ts = to_datetime P col
          \<and> float_series out ''time_s'' = Inr secs
          \<and> length col = nrows df \<and> length ts = nrows df \<and> length secs = nrows df
          \<and> (\<not> time_raises P col \<and> (\<exists>j<nrows df. ts ! j \<noteq> None) \<longrightarrow>
               (\<exists>t0. (\<exists>j<nrows df. ts ! j = Some t0)
                    \<and> (\<forall>j<nrows df. \<forall>t. ts ! j = Some t \<longrightarrow> t0 \<le> t)
                    \<and> (\<forall>i<nrows df.
                          case ts ! i of
                            Some t \<Rightarrow> secs ! i = Fin (real_of_int (t - t0) / 10 ^ 9)
                          | None \<Rightarrow> secs ! i = NaN)))
          \<and> (time_raises P col \<longrightarrow> secs = arange (nrows df))))"
proof -
  let ?col = "input_series df ''timestamp''"
  let ?ts = "to_datetime P ?col"
  have returns: "gears_in_range g3 g4 \<longrightarrow> (\<exists>out. compute_torque_frame P df g3 g4 r = Inr out)"
    using compute_torque_frame_returns_iff [of P df g3 g4 r] by simp
  have parsed: "\<exists>t0. (\<exists>j<nrows df. ?ts ! j = Some t0)
              \<and> (\<forall>j<nrows df. \<forall>t. ?ts ! j = Some t \<longrightarrow> t0 \<le> t)
              \<and> (\<forall>i<nrows df.
                    case ?ts ! i of
                      Some t \<Rightarrow> time_values P ?col ! i = Fin (real_of_int (t - t0) / 10 ^ 9)
                    | None \<Rightarrow> time_values P ?col ! i = NaN)"
    if nr: "\<not> time_raises P ?col" and ex: "\<exists>j<nrows df. ?ts ! j \<noteq> None"
  proof -
    from ex obtain j where j: "j < length ?col" "?ts ! j \<noteq> None"
      by (auto simp: nrows_def)
    from time_values_parsed [OF nr j] obtain t0 where
          a: "\<exists>j<length ?col. ?ts ! j = Some t0"
      and b: "\<forall>j<length ?col. \<forall>t. ?ts ! j = Some t \<longrightarrow> t0 \<le> t"
      and c: "time_values P ?col = map (\<lambda>t. elapsed_seconds t (Some t0)) ?ts"
      by blast
    have "case ?ts ! i of
            Some t \<Rightarrow> time_values P ?col ! i = Fin (real_of_int (t - t0) / 10 ^ 9)
          | None \<Rightarrow> time_values P ?col ! i = NaN" if "i < nrows df" for i
      using that by (simp add: c nrows_def elapsed_seconds_def split: option.splits)
    with a b show ?thesis
      by (auto simp: nrows_def)
  qed
  have raised: "time_raises P ?col \<longrightarrow> time_values P ?col = arange (nrows df)"
    by (simp add: time_values_raises nrows_def)
  have each: "\<exists>col ts secs.
            get_series out ''timestamp'' = Inr col
          \<and> ts = to_datetime P col
          \<and> float_series out ''time_s'' = Inr secs
          \<and> length col = nrows df \<and> length ts = nrows df \<and> length secs = nrows df
          \<and> (\<not> time_raises P col \<and> (\<exists>j<nrows df. ts ! j \<noteq> None) \<longrightarrow>
               (\<exists>t0. (\<exists>j<nrows df. ts ! j = Some t0)
                    \<and> (\<forall>j<nrows df. \<forall>t. ts ! j = Some t \<longrightarrow> t0 \<le> t)
                    \<and> (\<forall>i<nrows df.
                          case ts ! i of
                            Some t \<Rightarrow> secs ! i = Fin (real_of_int (t - t0) / 10 ^ 9)
                          | None \<Rightarrow> secs ! i = NaN)))
          \<and> (time_raises P col \<longrightarrow> secs = arange (nrows df))"
    if ret: "compute_torque_frame P df g3 g4 r = Inr out" for out
  proof -
    from ret have "gears_in_range g3 g4"
      using compute_torque_frame_returns_iff [of P df g3 g4 r] by blast
    from compute_torque_frame_normal_form [OF this, of P df r] ret
    have tm: "float_series out ''time_s'' = Inr (time_values P ?col)"
      and ts: "get_series out ''timestamp'' = Inr ?col"
      by auto
    show ?thesis
      apply (rule exI [of _ ?col])
      apply (rule exI [of _ ?ts])
      apply (rule exI [of _ "time_values P ?col"])
      using tm ts parsed raised
      apply (simp add: nrows_def)
      done
  qed
  from returns each show ?thesis
    by blast
qed

lemma sample_run_timestamp:
  "input_series sample_run ''timestamp'' =
     [Text ''2025-03-01 10:00:02.500'', Text ''not a time'', Text ''2025-03-01 10:00:00.000'']"
  by (simp add: input_series_def sample_run_def mk_frame_def)

lemma sample_run_times:
  "to_datetime sample_pandas (input_series sample_run ''timestamp'') =
     [Some 1740823202500000000, None, Some 1740823200000000000]"
  unfolding sample_run_timestamp by code_simp

lemma sample_run_not_raising:
  "\<not> time_raises sample_pandas (input_series sample_run ''timestamp'')"
  by (simp add: sample_run_timestamp sample_pandas_def mixed_offsets_def)

theorem time_base_from_earliest_witness:
  "gears_in_range 24 48
   \<and> (\<exists>out col secs.
        compute_torque_frame sample_pandas sample_run 24 48 sample_radius = Inr out
      \<and> get_series out ''timestamp'' = Inr col
      \<and> float_series out ''time_s'' = Inr secs
      \<and> \<not> time_raises sample_pandas col
      \<and> to_datetime sample_pandas col
          = [Some 1740823202500000000, None, Some 1740823200000000000]
      \<and> secs = [Fin 2.5, NaN, Fin 0])"
proof -
  note T = time_base_from_earliest [of 24 48 sample_pandas sample_run sample_radius]
  from T [THEN conjunct1, THEN mp, OF gears_24_48(1)]
  obtain out where out: "compute_torque_frame sample_pandas sample_run 24 48 sample_radius = Inr out"
    by blast
  from T [THEN conjunct2, rule_format, OF out]
  obtain col ts secs where
        col: "get_series out ''timestamp'' = Inr col"
    and tsd: "ts = to_datetime sample_pandas col"
    and secs: "float_series out ''time_s'' = Inr secs"
    and len: "length secs = nrows sample_run"
    and imp: "\<not> time_raises sample_pandas col
              \<and> (\<exists>j<nrows sample_run. ts ! j \<noteq> None) \<longrightarrow>
         (\<exists>t0. (\<exists>j<nrows sample_run. ts ! j = Some t0)
              \<and> (\<forall>j<nrows sample_run. \<forall>t. ts ! j = Some t \<longrightarrow> t0 \<le> t)
              \<and> (\<forall>i<nrows sample_run.
                    case ts ! i of
                      Some t \<Rightarrow> secs ! i = Fin (real_of_int (t - t0) / 10 ^ 9)
                    | None \<Rightarrow> secs ! i = NaN))"
    by blast
  obtain out' where "compute_torque_frame sample_pandas sample_run 24 48 sample_radius = Inr out'"
    and "get_series out' ''timestamp'' = Inr (input_series sample_run ''timestamp'')"
    using compute_torque_frame_normal_form [OF gears_24_48(1), of sample_pandas sample_run
        sample_radius]
    by blast
  with out col have colv: "col = input_series sample_run ''timestamp''"
    by simp
  have times: "ts = [Some 1740823202500000000, None, Some 1740823200000000000]"
    by (simp only: tsd colv sample_run_times)
  have t: "ts ! 0 = Some 1740823202500000000" "ts ! 1 = None"
          "ts ! 2 = Some 1740823200000000000"
    by (simp_all add: times)
  have nr: "\<not> time_raises sample_pandas col"
    by (simp only: colv sample_run_not_raising not_False_eq_True)
  have n: "nrows sample_run = 3"
    by (rule nrows_sample_run)
  have "\<exists>j<nrows sample_run. ts ! j \<noteq> None"
    using t(1) by (intro exI [of _ 0]) (simp add: n)
  with imp nr obtain t0 where
        a: "\<exists>j<nrows sample_run. ts ! j = Some t0"
    and b: "\<forall>j<nrows sample_run. \<forall>t. ts ! j = Some t \<longrightarrow> t0 \<le> t"
    and c: "\<forall>i<nrows sample_run.
                    case ts ! i of
                      Some t \<Rightarrow> secs ! i = Fin (real_of_int (t - t0) / 10 ^ 9)
                    | None \<Rightarrow> secs ! i = NaN"
    by blast
  have lt3: "j < 3 \<longleftrightarrow> j = 0 \<or> j = 1 \<or> j = 2" for j :: nat
    by auto
  from a have "t0 = 1740823202500000000 \<or> t0 = 1740823200000000000"
    using t by (auto simp: n lt3)
  moreover have "t0 \<le> 1740823200000000000"
    using b [rule_format, of 2 1740823200000000000] t(3) by (simp add: n)
  ultimately have t0: "t0 = 1740823200000000000"
    by auto
  have "secs ! 0 = Fin 2.5" "secs ! 1 = NaN" "secs ! 2 = Fin 0"
    using c [rule_format, of 0] c [rule_format, of 1] c [rule_format, of 2] t
    by (simp_all add: n t0)
  moreover have "length secs = 3"
    using len n by simp
  ultimately have sv: "secs = [Fin 2.5, NaN, Fin 0]"
    by (auto simp: list_eq_iff_nth_eq lt3)
  have inner: "\<exists>out col secs.
        compute_torque_frame sample_pandas sample_run 24 48 sample_radius = Inr out
      \<and> get_series out ''timestamp'' = Inr col
      \<and> float_series out ''time_s'' = Inr secs
      \<and> \<not> time_raises sample_pandas col
      \<and> to_datetime sample_pandas col
          = [Some 1740823202500000000, None, Some 1740823200000000000]
      \<and> secs = [Fin 2.5, NaN, Fin 0]"
    apply (rule exI [of _ out])
    apply (rule exI [of _ col])
    apply (rule exI [of _ secs])
    using out col secs nr times sv tsd
    apply simp
    done
  from gears_24_48(1) inner show ?thesis
    by (rule conjI)
qed

lemma mixed_offset_timestamp:
  "input_series mixed_offset_run ''timestamp'' =
     [Text ''2025-03-01 10:00:00+01:00'', Text ''2025-03-01 10:00:00+02:00'']"
  by (simp add: input_series_def mixed_offset_run_def mk_frame_def)

lemma mixed_offset_times:
  "to_datetime sample_pandas (input_series mixed_offset_run ''timestamp'') =
     [Some 1740819600000000000, Some 1740816000000000000]"
  unfolding mixed_offset_timestamp by code_simp

lemma mixed_offset_raises:
  "time_raises sample_pandas (input_series mixed_offset_run ''timestamp'')"
  by (simp add: mixed_offset_timestamp sample_pandas_def mixed_offsets_def)

text \<open>
  Claim C4 as stated fails: in a run of two rows whose timestamps have different UTC
  offsets both rows have a time, an hour apart, but the time computation raises and
  \<open>time_s\<close> is the number of the row, \<open>[0, 1]\<close>, not \<open>[3600, 0]\<close>.
\<close>

theorem mixed_offsets_get_ordinal_times:
  "to_datetime sample_pandas (input_series mixed_offset_run ''timestamp'') =
     [Some 1740819600000000000, Some 1740816000000000000]
   \<and> time_raises sample_pandas (input_series mixed_offset_run ''timestamp'')
   \<and> (\<exists>out. compute_torque_frame sample_pandas mixed_offset_run 24 48 sample_radius = Inr out
          \<and> get_series out ''timestamp'' = Inr (input_series mixed_offset_run ''timestamp'')
          \<and> float_series out ''time_s'' = Inr [Fin 0, Fin 1])
   \<and> Fin (real_of_int (1740819600000000000 - 1740816000000000000) / 10 ^ 9) = Fin 3600
   \<and> [Fin 0, Fin 1] \<noteq> [Fin 3600, Fin 0]"
proof -
  have tv: "time_values sample_pandas (input_series mixed_offset_run ''timestamp'')
              = [Fin 0, Fin 1]"
    using time_values_raises [OF mixed_offset_raises]
    by (simp add: mixed_offset_timestamp arange_def upt_rec)
  have run: "\<exists>out. compute_torque_frame sample_pandas mixed_offset_run 24 48 sample_radius
                      = Inr out
          \<and> get_series out ''timestamp'' = Inr (input_series mixed_offset_run ''timestamp'')
          \<and> float_series out ''time_s'' = Inr [Fin 0, Fin 1]"
    using compute_torque_frame_normal_form [OF gears_24_48(1), of sample_pandas mixed_offset_run
        sample_radius]
    by (auto simp: tv)
  have ar: "Fin (real_of_int (1740819600000000000 - 1740816000000000000) / 10 ^ 9) = Fin 3600"
    by simp
  have ne: "[Fin 0, Fin 1] \<noteq> [Fin 3600, Fin 0]"
    by simp
  from mixed_offset_times mixed_offset_raises run ar ne show ?thesis
    by (intro conjI)
qed

lemma unparsable_run_timestamp:
  "input_series unparsable_run ''timestamp'' = [Text ''n/a'', Text ''n/a'']"
  by (simp add: input_series_def unparsable_run_def mk_frame_def)

lemma unparsable_run_times:
  "to_datetime sample_pandas (input_series unparsable_run ''timestamp'') = [None, None]"
  unfolding unparsable_run_timestamp by code_simp

lemma unparsable_run_not_raising:
  "\<not> time_raises sample_pandas (input_series unparsable_run ''timestamp'')"
  by (simp add: unparsable_run_timestamp sample_pandas_def mixed_offsets_def)

lemma time_values_unparsed:
  assumes "\<not> time_raises P col" and "to_datetime P col = replicate (length col) None"
  shows "time_values P col = replicate (length col) NaN"
  using assms
  by (simp add: time_values_def time_base_def Let_def map_filter_def elapsed_seconds_def
      map_replicate_const)

lemma unparsable_run_time_values:
  "time_values sample_pandas (input_series unparsable_run ''timestamp'') = [NaN, NaN]"
proof -
  have l: "length (input_series unparsable_run ''timestamp'') = 2"
    by (simp add: unparsable_run_def mk_frame_def)
  have "to_datetime sample_pandas (input_series unparsable_run ''timestamp'')
          = replicate (length (input_series unparsable_run ''timestamp'')) None"
    by (simp only: unparsable_run_times l) (simp add: numeral_2_eq_2)
  from time_values_unparsed [OF unparsable_run_not_raising this] show ?thesis
    by (simp only: l) (simp add: numeral_2_eq_2)
qed

lemma bare_run_timestamp: "input_series bare_run ''timestamp'' = [Flt NaN, Flt NaN]"
  by (simp add: input_series_def bare_run_def mk_frame_def)

lemma bare_run_times:
  "to_datetime sample_pandas (input_series bare_run ''timestamp'') = [None, None]"
  unfolding bare_run_timestamp by code_simp

lemma bare_run_not_raising:
  "\<not> time_raises sample_pandas (input_series bare_run ''timestamp'')"
  by (simp add: bare_run_timestamp sample_pandas_def mixed_offsets_def)

lemma bare_run_time_values:
  "time_values sample_pandas (input_series bare_run ''timestamp'') = [NaN, NaN]"
proof -
  have l: "length (input_series bare_run ''timestamp'') = 2"
    by (simp add: bare_run_def mk_frame_def)
  have "to_datetime sample_pandas (input_series bare_run ''timestamp'')
          = replicate (length (input_series bare_run ''timestamp'')) None"
    by (simp only: bare_run_times l) (simp add: numeral_2_eq_2)
  from time_values_unparsed [OF bare_run_not_raising this] show ?thesis
    by (simp only: l) (simp add: numeral_2_eq_2)
qed

text \<open>
  Claim C3, evaluated on the code. In a run of two rows whose timestamps do not parse
  (the coercion gives NaT for both and nothing raises), and in a run without a
  timestamp column, \<open>time_s\<close> is NaN in both rows; the ordinal time base
  \<open>[0, 1]\<close> of the \<^verbatim>\<open>except\<close> branch is not taken.
\<close>

theorem unparsable_times_left_undefined:
  "to_datetime sample_pandas (input_series unparsable_run ''timestamp'') = [None, None]
   \<and> \<not> time_raises sample_pandas (input_series unparsable_run ''timestamp'')
   \<and> (\<exists>out. compute_torque_frame sample_pandas unparsable_run 24 48 sample_radius = Inr out
          \<and> float_series out ''time_s'' = Inr [NaN, NaN])
   \<and> arange (nrows unparsable_run) = [Fin 0, Fin 1]
   \<and> (\<exists>out. compute_torque_frame sample_pandas bare_run 24 48 sample_radius = Inr out
          \<and> get_series out ''timestamp'' = Inr [Flt NaN, Flt NaN]
          \<and> float_series out ''time_s'' = Inr [NaN, NaN])"
proof -
  have b: "\<exists>out. compute_torque_frame sample_pandas unparsable_run 24 48 sample_radius = Inr out
          \<and> float_series out ''time_s'' = Inr [NaN, NaN]"
    using compute_torque_frame_normal_form [OF gears_24_48(1), of sample_pandas unparsable_run
        sample_radius]
    by (auto simp: unparsable_run_time_values)
  have c: "arange (nrows unparsable_run) = [Fin 0, Fin 1]"
    by (simp add: arange_def nrows_def unparsable_run_def mk_frame_def upt_rec)
  have d: "\<exists>out. compute_torque_frame sample_pandas bare_run 24 48 sample_radius = Inr out
          \<and> get_series out ''timestamp'' = Inr [Flt NaN, Flt NaN]
          \<and> float_series out ''time_s'' = Inr [NaN, NaN]"
    using compute_torque_frame_normal_form [OF gears_24_48(1), of sample_pandas bare_run
        sample_radius]
    by (auto simp: bare_run_time_values [unfolded bare_run_timestamp] bare_run_timestamp)
  from unparsable_run_times unparsable_run_not_raising b c d show ?thesis
    by (intro conjI)
qed

lemma nth_speed_values:
  "i < length (rows df) \<Longrightarrow>
     speed_values P df ! i =
       fmul (fillna (Fin 0) (to_numeric P (input_series df ''speed'' ! i))) (Fin 0.44704)"
  by (simp add: speed_values_def)

lemma nth_power_values:
  "i < length (rows df) \<Longrightarrow>
     power_values P df ! i = fillna (Fin 0) (to_numeric P (input_series df ''power'' ! i))"
  by (simp add: power_values_def)

text \<open>
  Claim C5, amended. For every frame, with or without rows, and parameters whose gear
  counts are within the range of a float (or with \<open>gear3_teeth\<close> zero), the normalizer
  returns a frame with the same number of rows; with other gear counts it raises
  \<^verbatim>\<open>OverflowError\<close>. A missing timestamp column is put in as NaN throughout, a
  missing power or speed column as 0.0 throughout; columns that exist are kept. A speed
  or power cell that is no number counts as 0.0, and \<open>speed_mps\<close> is the speed times
  0.44704.
\<close>

theorem normalizer_total:
  "(\<not> gears_in_range g3 g4 \<longrightarrow> compute_torque_frame P df g3 g4 r = Inl OverflowError)
   \<and> (gears_in_range g3 g4 \<longrightarrow>
    (\<exists>out timestamp power speed speed_mps power_w.
      compute_torque_frame P df g3 g4 r = Inr out
    \<and> nrows out = nrows df
    \<and> get_series out ''timestamp'' = Inr timestamp
    \<and> get_series out ''power'' = Inr power
    \<and> get_series out ''speed'' = Inr speed
    \<and> float_series out ''speed_mps'' = Inr speed_mps
    \<and> float_series out ''power_w'' = Inr power_w
    \<and> length timestamp = nrows df \<and> length power = nrows df \<and> length speed = nrows df
    \<and> length speed_mps = nrows df \<and> length power_w = nrows df
    \<and> (''timestamp'' \<notin> set (columns df) \<longrightarrow> timestamp = replicate (nrows df) (Flt NaN))
    \<and> (''power'' \<notin> set (columns df) \<longrightarrow> power = replicate (nrows df) (Flt (Fin 0)))
    \<and> (''speed'' \<notin> set (columns df) \<longrightarrow> speed = replicate (nrows df) (Flt (Fin 0)))
    \<and> (''timestamp'' \<in> set (columns df) \<longrightarrow> timestamp = map (\<lambda>row. row ''timestamp'') (rows df))
    \<and> (''power'' \<in> set (columns df) \<longrightarrow> power = map (\<lambda>row. row ''power'') (rows df))
    \<and> (''speed'' \<in> set (columns df) \<longrightarrow> speed = map (\<lambda>row. row ''speed'') (rows df))
    \<and> (\<forall>i<nrows df.
           speed_mps ! i =
             fmul (if to_numeric P (speed ! i) = NaN then Fin 0 else to_numeric P (speed ! i))
                  (Fin 0.44704)
         \<and> power_w ! i =
             (if to_numeric P (power ! i) = NaN then Fin 0 else to_numeric P (power ! i))
         \<and> (to_numeric P (speed ! i) = NaN \<longrightarrow> speed_mps ! i = Fin 0)
         \<and> (to_numeric P (power ! i) = NaN \<longrightarrow> power_w ! i = Fin 0))))"
proof -
  have over: "\<not> gears_in_range g3 g4 \<longrightarrow> compute_torque_frame P df g3 g4 r = Inl OverflowError"
    using compute_torque_frame_overflow [of g3 g4 P df r] by blast
  have cols: "(''timestamp'' \<notin> set (columns df) \<longrightarrow>
                 input_series df ''timestamp'' = replicate (nrows df) (Flt NaN))
    \<and> (''power'' \<notin> set (columns df) \<longrightarrow>
          input_series df ''power'' = replicate (nrows df) (Flt (Fin 0)))
    \<and> (''speed'' \<notin> set (columns df) \<longrightarrow>
          input_series df ''speed'' = replicate (nrows df) (Flt (Fin 0)))
    \<and> (''timestamp'' \<in> set (columns df) \<longrightarrow>
          input_series df ''timestamp'' = map (\<lambda>row. row ''timestamp'') (rows df))
    \<and> (''power'' \<in> set (columns df) \<longrightarrow>
          input_series df ''power'' = map (\<lambda>row. row ''power'') (rows df))
    \<and> (''speed'' \<in> set (columns df) \<longrightarrow>
          input_series df ''speed'' = map (\<lambda>row. row ''speed'') (rows df))"
    by (simp add: input_series_def nrows_def)
  have vals: "\<forall>i<nrows df.
           speed_values P df ! i =
             fmul (if to_numeric P (input_series df ''speed'' ! i) = NaN then Fin 0
                   else to_numeric P (input_series df ''speed'' ! i)) (Fin 0.44704)
         \<and> power_values P df ! i =
             (if to_numeric P (input_series df ''power'' ! i) = NaN then Fin 0
              else to_numeric P (input_series df ''power'' ! i))
         \<and> (to_numeric P (input_series df ''speed'' ! i) = NaN \<longrightarrow> speed_values P df ! i = Fin 0)
         \<and> (to_numeric P (input_series df ''power'' ! i) = NaN \<longrightarrow> power_values P df ! i = Fin 0)"
    by (simp add: nrows_def nth_speed_values nth_power_values fillna_def)
  have total: "\<exists>out timestamp power speed speed_mps power_w.
      compute_torque_frame P df g3 g4 r = Inr out
    \<and> nrows out = nrows df
    \<and> get_series out ''timestamp'' = Inr timestamp
    \<and> get_series out ''power'' = Inr power
    \<and> get_series out ''speed'' = Inr speed
    \<and> float_series out ''speed_mps'' = Inr speed_mps
    \<and> float_series out ''power_w'' = Inr power_w
    \<and> length timestamp = nrows df \<and> length power = nrows df \<and> length speed = nrows df
    \<and> length speed_mps = nrows df \<and> length power_w = nrows df
    \<and> (''timestamp'' \<notin> set (columns df) \<longrightarrow> timestamp = replicate (nrows df) (Flt NaN))
    \<and> (''power'' \<notin> set (columns df) \<longrightarrow> power = replicate (nrows df) (Flt (Fin 0)))
    \<and> (''speed'' \<notin> set (columns df) \<longrightarrow> speed = replicate (nrows df) (Flt (Fin 0)))
    \<and> (''timestamp'' \<in> set (columns df) \<longrightarrow> timestamp = map (\<lambda>row. row ''timestamp'') (rows df))
    \<and> (''power'' \<in> set (columns df) \<longrightarrow> power = map (\<lambda>row. row ''power'') (rows df))
    \<and> (''speed'' \<in> set (columns df) \<longrightarrow> speed = map (\<lambda>row. row ''speed'') (rows df))
    \<and> (\<forall>i<nrows df.
           speed_mps ! i =
             fmul (if to_numeric P (speed ! i) = NaN then Fin 0 else to_numeric P (speed ! i))
                  (Fin 0.44704)
         \<and> power_w ! i =
             (if to_numeric P (power ! i) = NaN then Fin 0 else to_numeric P (power ! i))
         \<and> (to_numeric P (speed ! i) = NaN \<longrightarrow> speed_mps ! i = Fin 0)
         \<and> (to_numeric P (power ! i) = NaN \<longrightarrow> power_w ! i = Fin 0))"
    if ok: "gears_in_range g3 g4"
  proof -
    obtain out where out: "compute_torque_frame P df g3 g4 r = Inr out"
      and n: "length (rows out) = length (rows df)"
      and sp: "float_series out ''speed_mps'' = Inr (speed_values P df)"
      and pw: "float_series out ''power_w'' = Inr (power_values P df)"
      and c1: "get_series out ''timestamp'' = Inr (input_series df ''timestamp'')"
      and c2: "get_series out ''power'' = Inr (input_series df ''power'')"
      and c3: "get_series out ''speed'' = Inr (input_series df ''speed'')"
      using compute_torque_frame_normal_form [OF ok, of P df r] by blast
    show ?thesis
      apply (rule exI [of _ out])
      apply (rule exI [of _ "input_series df ''timestamp''"])
      apply (rule exI [of _ "input_series df ''power''"])
      apply (rule exI [of _ "input_series df ''speed''"])
      apply (rule exI [of _ "speed_values P df"])
      apply (rule exI [of _ "power_values P df"])
      using out n sp pw c1 c2 c3 cols vals
      apply (simp add: nrows_def)
      done
  qed
  from over total show ?thesis
    by blast
qed

text \<open>
  Claim C5 as stated fails: with a tooth count of \<open>10 ^ 400\<close> for gear 3,
  \<^verbatim>\<open>float(gear3_teeth)\<close> raises \<^verbatim>\<open>OverflowError\<close>, which nothing catches.
\<close>

theorem huge_gear_count_raises:
  "huge_teeth \<noteq> 0
   \<and> py_float huge_teeth = Inl OverflowError
   \<and> compute_torque_frame sample_pandas sample_run huge_teeth 48 sample_radius
       = Inl OverflowError"
proof -
  have a: "huge_teeth \<noteq> 0"
    by (simp add: huge_teeth_def)
  have b: "py_float huge_teeth = Inl OverflowError"
    by (simp add: py_float_def huge_teeth_out_of_range)
  have "\<not> gears_in_range huge_teeth 48"
    using a huge_teeth_out_of_range by (simp add: gears_in_range_def)
  then have c: "compute_torque_frame sample_pandas sample_run huge_teeth 48 sample_radius
                  = Inl OverflowError"
    by (rule compute_torque_frame_overflow)
  from a b c show ?thesis
    by (intro conjI)
qed

lemma bare_run_columns: "columns bare_run = [''cadence'']" "nrows bare_run = 2"
  by (simp_all add: bare_run_def mk_frame_def nrows_def)

theorem normalizer_total_witness:
  "\<not> gears_in_range huge_teeth 48
   \<and> compute_torque_frame sample_pandas bare_run huge_teeth 48 sample_radius = Inl OverflowError
   \<and> gears_in_range 24 48
   \<and> (\<exists>out. compute_torque_frame sample_pandas bare_run 24 48 sample_radius = Inr out
        \<and> ''timestamp'' \<notin> set (columns bare_run)
        \<and> ''power'' \<notin> set (columns bare_run)
        \<and> ''speed'' \<notin> set (columns bare_run)
        \<and> get_series out ''timestamp'' = Inr [Flt NaN, Flt NaN]
        \<and> get_series out ''power'' = Inr [Flt (Fin 0), Flt (Fin 0)]
        \<and> get_series out ''speed'' = Inr [Flt (Fin 0), Flt (Fin 0)])
   \<and> (\<exists>out speed speed_mps.
          compute_torque_frame sample_pandas sample_run 24 48 sample_radius = Inr out
        \<and> ''speed'' \<in> set (columns sample_run)
        \<and> get_series out ''speed'' = Inr speed
        \<and> float_series out ''speed_mps'' = Inr speed_mps
        \<and> speed = [Text ''10'', Text ''0'', Text ''fast'']
        \<and> (2::nat) < nrows sample_run
        \<and> to_numeric sample_pandas (speed ! 2) = NaN
        \<and> speed_mps ! 2 = Fin 0
        \<and> speed_mps ! 0 = Fin 4.4704)"
proof -
  have "huge_teeth \<noteq> 0"
    by (simp add: huge_teeth_def)
  then have huge: "\<not> gears_in_range huge_teeth 48"
    using huge_teeth_out_of_range by (simp add: gears_in_range_def)
  have over: "compute_torque_frame sample_pandas bare_run huge_teeth 48 sample_radius
                = Inl OverflowError"
    using normalizer_total [of huge_teeth 48 sample_pandas bare_run sample_radius,
        THEN conjunct1, THEN mp, OF huge] .
  have absent: "''timestamp'' \<notin> set (columns bare_run)" "''power'' \<notin> set (columns bare_run)"
      "''speed'' \<notin> set (columns bare_run)"
    by (simp_all add: bare_run_columns)
  have first: "\<exists>out. compute_torque_frame sample_pandas bare_run 24 48 sample_radius = Inr out
        \<and> ''timestamp'' \<notin> set (columns bare_run)
        \<and> ''power'' \<notin> set (columns bare_run)
        \<and> ''speed'' \<notin> set (columns bare_run)
        \<and> get_series out ''timestamp'' = Inr [Flt NaN, Flt NaN]
        \<and> get_series out ''power'' = Inr [Flt (Fin 0), Flt (Fin 0)]
        \<and> get_series out ''speed'' = Inr [Flt (Fin 0), Flt (Fin 0)]"
    using normalizer_total [of 24 48 sample_pandas bare_run sample_radius,
        THEN conjunct2, THEN mp, OF gears_24_48(1)] absent
    by (auto simp: bare_run_columns numeral_2_eq_2)
  have present: "''speed'' \<in> set (columns sample_run)"
    by (simp add: sample_run_def mk_frame_def)
  have n: "(2::nat) < nrows sample_run"
    by (simp add: nrows_sample_run)
  obtain out speed speed_mps where
        out: "compute_torque_frame sample_pandas sample_run 24 48 sample_radius = Inr out"
    and sp: "get_series out ''speed'' = Inr speed"
    and sm: "float_series out ''speed_mps'' = Inr speed_mps"
    and col: "''speed'' \<in> set (columns sample_run) \<longrightarrow>
                speed = map (\<lambda>row. row ''speed'') (rows sample_run)"
    and vals: "\<forall>i<nrows sample_run.
           speed_mps ! i =
             fmul (if to_numeric sample_pandas (speed ! i) = NaN then Fin 0
                   else to_numeric sample_pandas (speed ! i)) (Fin 0.44704)
         \<and> (to_numeric sample_pandas (speed ! i) = NaN \<longrightarrow> speed_mps ! i = Fin 0)"
    using normalizer_total [of 24 48 sample_pandas sample_run sample_radius,
        THEN conjunct2, THEN mp, OF gears_24_48(1)] by blast
  from col present have speed: "speed = [Text ''10'', Text ''0'', Text ''fast'']"
    by (simp add: sample_run_def mk_frame_def)
  have num: "to_numeric sample_pandas (speed ! 2) = NaN"
            "to_numeric sample_pandas (speed ! 0) = Fin 10"
    by (simp_all add: speed to_numeric_def sample_pandas_def sample_number_values)
  have s2: "speed_mps ! 2 = Fin 0"
    using vals [rule_format, of 2] n num(1) by simp
  have s0: "speed_mps ! 0 = Fin 4.4704"
    using vals [rule_format, of 0] n num(2) by simp
  have second: "\<exists>out speed speed_mps.
          compute_torque_frame sample_pandas sample_run 24 48 sample_radius = Inr out
        \<and> ''speed'' \<in> set (columns sample_run)
        \<and> get_series out ''speed'' = Inr speed
        \<and> float_series out ''speed_mps'' = Inr speed_mps
        \<and> speed = [Text ''10'', Text ''0'', Text ''fast'']
        \<and> (2::nat) < nrows sample_run
        \<and> to_numeric sample_pandas (speed ! 2) = NaN
        \<and> speed_mps ! 2 = Fin 0
        \<and> speed_mps ! 0 = Fin 4.4704"
    apply (rule exI [of _ out])
    apply (rule exI [of _ speed])
    apply (rule exI [of _ speed_mps])
    using out present sp sm speed n num(1) s2 s0
    apply simp
    done
  from huge over gears_24_48(1) first second show ?thesis
    by (intro conjI)
qed

section \<open>The classifier and the display name\<close>

lemma lower_eval [simp]: "lower [] = []" "lower (c # cs) = lower_char c # lower cs"
  by (simp_all add: lower_def)

text \<open>
  Claim C6. \<open>extract_test_type\<close> is the specification's classifier: a substring
  match that ignores letter case, checked in the order 250, 200, 150, Passive, Unknown,
  the first match winning, a wattage token matching only when "passive" is absent.
  "Run_250W_passive.csv" is Passive, "Test_200_run1.csv" is 200W, "plain.csv" is
  Unknown.
\<close>

theorem extract_test_type_first_match:
  "extract_test_type filename = classify_test_type_spec filename
   \<and> (lower f = lower g \<longrightarrow> extract_test_type f = extract_test_type g)
   \<and> (contains ''passive'' (lower filename) \<longrightarrow> extract_test_type filename = ''Passive'')
   \<and> (\<not> contains ''passive'' (lower filename) \<and> contains ''250'' (lower filename) \<longrightarrow>
         extract_test_type filename = ''250W'')
   \<and> (\<not> contains ''passive'' (lower filename) \<and> \<not> contains ''250'' (lower filename)
        \<and> contains ''200'' (lower filename) \<longrightarrow> extract_test_type filename = ''200W'')
   \<and> (\<not> contains ''passive'' (lower filename) \<and> \<not> contains ''250'' (lower filename)
        \<and> \<not> contains ''200'' (lower filename) \<and> contains ''150'' (lower filename) \<longrightarrow>
         extract_test_type filename = ''150W'')
   \<and> (\<not> contains ''passive'' (lower filename) \<and> \<not> contains ''250'' (lower filename)
        \<and> \<not> contains ''200'' (lower filename) \<and> \<not> contains ''150'' (lower filename) \<longrightarrow>
         extract_test_type filename = ''Unknown'')
   \<and> extract_test_type ''Run_250W_passive.csv'' = ''Passive''
   \<and> extract_test_type ''Test_200_run1.csv'' = ''200W''
   \<and> extract_test_type ''plain.csv'' = ''Unknown''"
proof -
  have spec: "extract_test_type filename = classify_test_type_spec filename"
    by (simp add: extract_test_type_def classify_test_type_spec_def wattage_matches_def Let_def)
  have ci: "lower f = lower g \<longrightarrow> extract_test_type f = extract_test_type g"
    by (simp add: extract_test_type_def)
  have ex1: "extract_test_type ''Run_250W_passive.csv'' = ''Passive''"
    by code_simp
  have ex2: "extract_test_type ''Test_200_run1.csv'' = ''200W''"
    by code_simp
  have ex3: "extract_test_type ''plain.csv'' = ''Unknown''"
    by code_simp
  show ?thesis
    using spec ci ex1 ex2 ex3 by (simp add: extract_test_type_def Let_def)
qed

theorem extract_test_type_first_match_witness:
  "lower ''PASSIVE_Run.csv'' = lower ''passive_run.CSV''
   \<and> extract_test_type ''PASSIVE_Run.csv'' = extract_test_type ''passive_run.CSV''
   \<and> contains ''passive'' (lower ''Run_250W_passive.csv'')
   \<and> extract_test_type ''Run_250W_passive.csv'' = ''Passive''
   \<and> \<not> contains ''passive'' (lower ''Test_150_250.csv'')
   \<and> contains ''250'' (lower ''Test_150_250.csv'')
   \<and> extract_test_type ''Test_150_250.csv'' = ''250W''
   \<and> \<not> contains ''250'' (lower ''Test_200_run1.csv'')
   \<and> contains ''200'' (lower ''Test_200_run1.csv'')
   \<and> extract_test_type ''Test_200_run1.csv'' = ''200W''
   \<and> \<not> contains ''200'' (lower ''150w.csv'') \<and> contains ''150'' (lower ''150w.csv'')
   \<and> extract_test_type ''150w.csv'' = ''150W''
   \<and> \<not> contains ''150'' (lower ''plain.csv'')
   \<and> extract_test_type ''plain.csv'' = ''Unknown''"
proof -
  have a: "lower ''PASSIVE_Run.csv'' = lower ''passive_run.CSV''"
    by code_simp
  have b: "contains ''passive'' (lower ''Run_250W_passive.csv'')"
    by code_simp
  have c: "\<not> contains ''passive'' (lower ''Test_150_250.csv'')"
          "contains ''250'' (lower ''Test_150_250.csv'')"
    by code_simp+
  have d: "\<not> contains ''passive'' (lower ''Test_200_run1.csv'')"
          "\<not> contains ''250'' (lower ''Test_200_run1.csv'')"
          "contains ''200'' (lower ''Test_200_run1.csv'')"
    by code_simp+
  have e: "\<not> contains ''passive'' (lower ''150w.csv'')" "\<not> contains ''250'' (lower ''150w.csv'')"
          "\<not> contains ''200'' (lower ''150w.csv'')" "contains ''150'' (lower ''150w.csv'')"
    by code_simp+
  have f: "\<not> contains ''passive'' (lower ''plain.csv'')" "\<not> contains ''250'' (lower ''plain.csv'')"
          "\<not> contains ''200'' (lower ''plain.csv'')" "\<not> contains ''150'' (lower ''plain.csv'')"
    by code_simp+
  note c2 = conjunct2 [THEN conjunct1]
  note c3 = conjunct2 [THEN conjunct2, THEN conjunct1]
  note c4 = conjunct2 [THEN conjunct2, THEN conjunct2, THEN conjunct1]
  note c5 = conjunct2 [THEN conjunct2, THEN conjunct2, THEN conjunct2, THEN conjunct1]
  note c6 = conjunct2 [THEN conjunct2, THEN conjunct2, THEN conjunct2, THEN conjunct2,
                       THEN conjunct1]
  note c7 = conjunct2 [THEN conjunct2, THEN conjunct2, THEN conjunct2, THEN conjunct2,
                       THEN conjunct2, THEN conjunct1]
  have r2: "extract_test_type ''PASSIVE_Run.csv'' = extract_test_type ''passive_run.CSV''"
    using extract_test_type_first_match [of "[]" "''PASSIVE_Run.csv''" "''passive_run.CSV''",
        THEN c2, THEN mp, OF a] .
  have r3: "extract_test_type ''Run_250W_passive.csv'' = ''Passive''"
    using extract_test_type_first_match [of "''Run_250W_passive.csv''" "[]" "[]",
        THEN c3, THEN mp, OF b] .
  have r4: "extract_test_type ''Test_150_250.csv'' = ''250W''"
    by (rule extract_test_type_first_match [of "''Test_150_250.csv''" "[]" "[]",
        THEN c4, THEN mp]) (simp only: c simp_thms)
  have r5: "extract_test_type ''Test_200_run1.csv'' = ''200W''"
    by (rule extract_test_type_first_match [of "''Test_200_run1.csv''" "[]" "[]",
        THEN c5, THEN mp]) (simp only: d simp_thms)
  have r6: "extract_test_type ''150w.csv'' = ''150W''"
    by (rule extract_test_type_first_match [of "''150w.csv''" "[]" "[]",
        THEN c6, THEN mp]) (simp only: e simp_thms)
  have r7: "extract_test_type ''plain.csv'' = ''Unknown''"
    by (rule extract_test_type_first_match [of "''plain.csv''" "[]" "[]",
        THEN c7, THEN mp]) (simp only: f simp_thms)
  from a r2 b r3 c r4 d(2,3) r5 e(3,4) r6 f(4) r7 show ?thesis
    by (intro conjI)
qed


lemma str_replace_Nil: "old \<noteq> [] \<Longrightarrow> str_replace old new [] = []"
  by (simp add: str_replace.simps)

lemma str_replace_skip:
  "old \<noteq> [] \<Longrightarrow> take (length old) (c # cs) \<noteq> old \<Longrightarrow>
     str_replace old new (c # cs) = c # str_replace old new cs"
  by (subst str_replace.simps) simp

lemma str_replace_hit:
  "old \<noteq> [] \<Longrightarrow> str_replace old new (old @ s) = new @ str_replace old new s"
  by (subst str_replace.simps) simp

lemma str_replace_absent:
  "old \<noteq> [] \<Longrightarrow> \<not> contains old s \<Longrightarrow> str_replace old new s = s"
  by (induction s) (simp_all add: str_replace_Nil str_replace_skip)

lemma no_early_match:
  assumes "old \<noteq> []" and "hd old \<notin> set (tl old)" and "a \<noteq> []"
    and "take (length old) a \<noteq> old"
  shows "take (length old) (a @ old @ b) \<noteq> old"
proof (cases "length old \<le> length a")
  case True
  then show ?thesis using assms(4) by simp
next
  case False
  then have lt: "length a < length old" by simp
  show ?thesis
  proof
    assume eq: "take (length old) (a @ old @ b) = old"
    let ?m = "length a"
    have "old ! ?m = take (length old) (a @ old @ b) ! ?m"
      by (simp only: eq)
    also have "\<dots> = (a @ old @ b) ! ?m"
      using lt by (simp only: nth_take)
    also have "\<dots> = old ! 0"
      using assms(1) by (simp add: nth_append)
    finally have "old ! ?m = hd old"
      using assms(1) by (simp add: hd_conv_nth)
    moreover have "old ! ?m \<in> set (tl old)"
    proof -
      from assms(3) obtain k where k: "?m = Suc k" by (cases a) auto
      with lt have "k < length (tl old)" by simp
      then have "tl old ! k \<in> set (tl old)" by (rule nth_mem)
      moreover have "tl old ! k = old ! ?m"
        using k assms(1) by (cases old) simp_all
      ultimately show ?thesis by simp
    qed
    ultimately show False using assms(2) by simp
  qed
qed

lemma str_replace_at:
  assumes "old \<noteq> []" and "hd old \<notin> set (tl old)"
  shows "\<not> contains old a \<Longrightarrow>
           str_replace old new (a @ old @ b) = a @ new @ str_replace old new b"
proof (induction a)
  case Nil
  then show ?case using assms(1) by (simp add: str_replace_hit)
next
  case (Cons c a)
  then have nt: "take (length old) (c # a) \<noteq> old" and nc: "\<not> contains old a"
    by simp_all
  have "take (length old) ((c # a) @ old @ b) \<noteq> old"
    using no_early_match [OF assms, of "c # a" b] nt by simp
  then have "str_replace old new ((c # a) @ old @ b) = c # str_replace old new (a @ old @ b)"
    using assms(1) by (simp add: str_replace_skip)
  with Cons.IH [OF nc] show ?case by simp
qed

lemma short_name_split:
  "extract_pilot_short_name d = split_last_capital (strip (str_replace '' Tests'' [] d))"
proof -
  have "name ! (length name - 1) = last name \<and> name ! (length name - 2) = last (butlast name)
        \<and> take (length name - 1) name = butlast name" if "1 < length name" for name :: string
  proof -
    from that have ne: "name \<noteq> []" "butlast name \<noteq> []"
      by (auto simp flip: length_greater_0_conv)
    have a: "name ! (length name - 1) = last name"
      using ne(1) by (simp add: last_conv_nth)
    have "last (butlast name) = butlast name ! (length (butlast name) - 1)"
      using ne(2) by (rule last_conv_nth)
    also have "\<dots> = name ! (length (butlast name) - 1)"
      using that by (intro nth_butlast) simp
    also have "length (butlast name) - 1 = length name - 2"
      by simp
    finally have b: "name ! (length name - 2) = last (butlast name)"
      by simp
    have c: "take (length name - 1) name = butlast name"
      by (simp add: butlast_conv_take)
    from a b c show ?thesis by blast
  qed
  then show ?thesis
    by (auto simp: extract_pilot_short_name_def split_last_capital_def Let_def)
qed

text \<open>
  Claim C7, amended. \<open>extract_pilot_short_name\<close> takes out the text " Tests" wherever
  it occurs (exact, case-sensitive), not only at the end: each occurrence found from
  the left is cut out and the search goes on behind it. It trims the whitespace at
  both ends; then, once, when the last character is uppercase and the one before it
  lowercase, it puts a space before the last character. "AndrewR Tests" gives
  "Andrew R" and "Maria Tests" gives "Maria"; only the last boundary is split.
\<close>

theorem short_name_removes_every_tests:
  "(\<not> contains '' Tests'' a \<and> \<not> contains '' Tests'' b \<longrightarrow>
      extract_pilot_short_name (a @ '' Tests'' @ b) = split_last_capital (strip (a @ b)))
   \<and> (\<not> contains '' Tests'' d \<longrightarrow> extract_pilot_short_name d = split_last_capital (strip d))
   \<and> (1 < length s \<and> isupper (last s) \<and> islower (last (butlast s)) \<longrightarrow>
        split_last_capital s = butlast s @ '' '' @ [last s])
   \<and> (\<not> (1 < length s \<and> isupper (last s) \<and> islower (last (butlast s))) \<longrightarrow>
        split_last_capital s = s)
   \<and> extract_pilot_short_name ''AndrewR Tests'' = ''Andrew R''
   \<and> extract_pilot_short_name ''Maria Tests'' = ''Maria''
   \<and> extract_pilot_short_name ''AnnLeeK Tests'' = ''AnnLee K''
   \<and> extract_pilot_short_name d = split_last_capital (strip (str_replace '' Tests'' [] d))
   \<and> (\<not> contains '' Tests'' d \<longrightarrow> str_replace '' Tests'' [] d = d)
   \<and> (\<not> contains '' Tests'' a \<longrightarrow>
        str_replace '' Tests'' [] (a @ '' Tests'' @ b) = a @ str_replace '' Tests'' [] b)"
proof -
  have old: "'' Tests'' \<noteq> []" "hd '' Tests'' \<notin> set (tl '' Tests'')"
    by simp_all
  have whole: "extract_pilot_short_name d
                 = split_last_capital (strip (str_replace '' Tests'' [] d))"
    by (rule short_name_split)
  have keep: "\<not> contains '' Tests'' d \<longrightarrow> str_replace '' Tests'' [] d = d"
    using str_replace_absent [OF old(1), of d "[]"] by simp
  have cut: "\<not> contains '' Tests'' a \<longrightarrow>
        str_replace '' Tests'' [] (a @ '' Tests'' @ b) = a @ str_replace '' Tests'' [] b"
    using str_replace_at [OF old, of a "[]" b] by simp
  have mid: "\<not> contains '' Tests'' a \<and> \<not> contains '' Tests'' b \<longrightarrow>
      extract_pilot_short_name (a @ '' Tests'' @ b) = split_last_capital (strip (a @ b))"
    using str_replace_at [OF old, of a "[]" b] str_replace_absent [OF old(1), of b "[]"]
    by (simp add: short_name_split)
  have none: "\<not> contains '' Tests'' d \<longrightarrow> extract_pilot_short_name d = split_last_capital (strip d)"
    using str_replace_absent [OF old(1), of d "[]"] by (simp add: short_name_split)
  have ex1: "extract_pilot_short_name ''AndrewR Tests'' = ''Andrew R''"
    by code_simp
  have ex2: "extract_pilot_short_name ''Maria Tests'' = ''Maria''"
    by code_simp
  have ex3: "extract_pilot_short_name ''AnnLeeK Tests'' = ''AnnLee K''"
    by code_simp
  have sp: "(1 < length s \<and> isupper (last s) \<and> islower (last (butlast s)) \<longrightarrow>
        split_last_capital s = butlast s @ '' '' @ [last s])
   \<and> (\<not> (1 < length s \<and> isupper (last s) \<and> islower (last (butlast s))) \<longrightarrow>
        split_last_capital s = s)"
    by (simp add: split_last_capital_def)
  from mid none sp ex1 ex2 ex3 whole keep cut show ?thesis
    by (intro conjI) simp_all
qed

text \<open>
  Claim C7 as stated fails: "Ann Tests Old" does not end with " Tests", so a function
  that strips only a trailing suffix leaves it as it is, but the code returns
  "Ann Old".
\<close>

theorem short_name_not_only_trailing:
  "extract_pilot_short_name ''Ann Tests Old'' = ''Ann Old''
   \<and> display_name_spec ''Ann Tests Old'' = ''Ann Tests Old''
   \<and> extract_pilot_short_name ''Ann Tests Old'' \<noteq> display_name_spec ''Ann Tests Old''"
proof -
  have a: "extract_pilot_short_name ''Ann Tests Old'' = ''Ann Old''"
    by code_simp
  have b: "display_name_spec ''Ann Tests Old'' = ''Ann Tests Old''"
    by code_simp
  have "''Ann Old'' \<noteq> ''Ann Tests Old''"
    by simp
  with a b show ?thesis
    by (simp only: simp_thms)
qed


theorem short_name_removes_every_tests_witness:
  "\<not> contains '' Tests'' ''Ann'' \<and> \<not> contains '' Tests'' '' Old''
   \<and> extract_pilot_short_name (''Ann'' @ '' Tests'' @ '' Old'') = ''Ann Old''
   \<and> \<not> contains '' Tests'' ''BobK''
   \<and> extract_pilot_short_name ''BobK'' = ''Bob K''
   \<and> 1 < length ''BobK'' \<and> isupper (last ''BobK'') \<and> islower (last (butlast ''BobK''))
   \<and> split_last_capital ''BobK'' = ''Bob K''
   \<and> \<not> (1 < length ''Maria'' \<and> isupper (last ''Maria'') \<and> islower (last (butlast ''Maria'')))
   \<and> split_last_capital ''Maria'' = ''Maria''
   \<and> str_replace '' Tests'' [] (''Ann'' @ '' Tests'' @ '' Old Tests'') = ''Ann Old''
   \<and> str_replace '' Tests'' [] ''BobK'' = ''BobK''"
proof -
  note last2 = conjunct2 [THEN conjunct2, THEN conjunct2, THEN conjunct2, THEN conjunct2,
                          THEN conjunct2, THEN conjunct2, THEN conjunct2]
  note c2 = conjunct2 [THEN conjunct1]
  note c3 = conjunct2 [THEN conjunct2, THEN conjunct1]
  note c4 = conjunct2 [THEN conjunct2, THEN conjunct2, THEN conjunct1]
  have a: "\<not> contains '' Tests'' ''Ann''" "\<not> contains '' Tests'' '' Old''"
    by code_simp+
  have "extract_pilot_short_name (''Ann'' @ '' Tests'' @ '' Old'')
          = split_last_capital (strip (''Ann'' @ '' Old''))"
    by (rule short_name_removes_every_tests [of "''Ann''" "'' Old''" "[]" "[]",
          THEN conjunct1, THEN mp]) (simp only: a simp_thms)
  also have "\<dots> = ''Ann Old''"
    by code_simp
  finally have r1: "extract_pilot_short_name (''Ann'' @ '' Tests'' @ '' Old'') = ''Ann Old''" .
  have b: "\<not> contains '' Tests'' ''BobK''"
    by code_simp
  have "extract_pilot_short_name ''BobK'' = split_last_capital (strip ''BobK'')"
    by (rule short_name_removes_every_tests [of "[]" "[]" "''BobK''" "[]", THEN c2, THEN mp])
       (rule b)
  also have "\<dots> = ''Bob K''"
    by code_simp
  finally have r2: "extract_pilot_short_name ''BobK'' = ''Bob K''" .
  have c: "1 < length ''BobK'' \<and> isupper (last ''BobK'') \<and> islower (last (butlast ''BobK''))"
    by code_simp
  have "split_last_capital ''BobK'' = butlast ''BobK'' @ '' '' @ [last ''BobK'']"
    by (rule short_name_removes_every_tests [of "[]" "[]" "[]" "''BobK''", THEN c3, THEN mp])
       (rule c)
  then have r3: "split_last_capital ''BobK'' = ''Bob K''"
    by simp
  have d: "\<not> (1 < length ''Maria'' \<and> isupper (last ''Maria'')
              \<and> islower (last (butlast ''Maria'')))"
    by code_simp
  have r4: "split_last_capital ''Maria'' = ''Maria''"
    by (rule short_name_removes_every_tests [of "[]" "[]" "[]" "''Maria''", THEN c4, THEN mp])
       (rule d)
  have "str_replace '' Tests'' [] (''Ann'' @ '' Tests'' @ '' Old Tests'')
          = ''Ann'' @ str_replace '' Tests'' [] '' Old Tests''"
    by (rule short_name_removes_every_tests [of "''Ann''" "'' Old Tests''" "[]" "[]",
          THEN last2, THEN conjunct2, THEN mp]) (rule a(1))
  also have "\<dots> = ''Ann Old''"
    by code_simp
  finally have r5:
    "str_replace '' Tests'' [] (''Ann'' @ '' Tests'' @ '' Old Tests'') = ''Ann Old''" .
  have r6: "str_replace '' Tests'' [] ''BobK'' = ''BobK''"
    by (rule short_name_removes_every_tests [of "[]" "[]" "''BobK''" "[]",
          THEN last2, THEN conjunct1, THEN mp]) (rule b)
  from a r1 b r2 c r3 d r4 r5 r6 show ?thesis
    by (intro conjI) (simp_all only: simp_thms)
qed

section \<open>The batch\<close>

lemma loads_Inr: "read_csv E p = Inr df \<Longrightarrow> loads E p"
  by (simp add: loads_def)

lemma loads_Inl: "read_csv E p = Inl e \<Longrightarrow> \<not> loads E p"
  by (simp add: loads_def)

text \<open>
  A run file that cannot be loaded is skipped: the loop gives the same result as on the
  files that load.
\<close>

lemma process_runs_filter:
  "process_runs E g3 g4 r csv_files acc
     = process_runs E g3 g4 r (filter (loads E) csv_files) acc"
proof (induction csv_files arbitrary: acc)
  case Nil
  show ?case by simp
next
  case (Cons p ps)
  show ?case
  proof (cases "read_csv E p")
    case (Inl e)
    then show ?thesis using Cons.IH by (simp add: loads_Inl)
  next
    case (Inr df)
    then show ?thesis
      using Cons.IH by (cases "summarize_run (parsers E) g3 g4 r p df") (simp_all add: loads_Inr)
  qed
qed

lemma summarize_run_nonempty:
  assumes "gears_in_range g3 g4" and "rows df \<noteq> []"
  shows "\<exists>rec. summarize_run P g3 g4 r p df = Inr rec \<and> file_rel rec = relative_name p"
proof -
  have "length (torque_values P df g3 g4 r) = length (rows df)"
    by simp
  with assms(2) have "torque_values P df g3 g4 r \<noteq> []"
    by (metis length_0_conv)
  then obtain m where "nanmax (torque_values P df g3 g4 r) = Inr m"
    using nanmax_nonempty by blast
  then show ?thesis
    by (simp add: summarize_run_unfold [OF assms(1)] relative_name_def)
qed

lemma process_runs_nonempty:
  assumes "gears_in_range g3 g4"
    and "\<forall>p\<in>set csv_files. \<forall>df. read_csv E p = Inr df \<longrightarrow> rows df \<noteq> []"
  shows "\<exists>recs. process_runs E g3 g4 r csv_files acc = Inr (acc @ recs)
           \<and> map file_rel recs = map relative_name (filter (loads E) csv_files)"
  using assms(2)
proof (induction csv_files arbitrary: acc)
  case Nil
  show ?case by simp
next
  case (Cons p ps)
  then have rest: "\<forall>p\<in>set ps. \<forall>df. read_csv E p = Inr df \<longrightarrow> rows df \<noteq> []"
    by simp
  show ?case
  proof (cases "read_csv E p")
    case (Inl e)
    then show ?thesis using Cons.IH [OF rest, of acc] by (simp add: loads_Inl)
  next
    case (Inr df)
    with Cons.prems have "rows df \<noteq> []" by simp
    then obtain rec where rec: "summarize_run (parsers E) g3 g4 r p df = Inr rec"
      "file_rel rec = relative_name p"
      using summarize_run_nonempty [OF assms(1)] by blast
    from Cons.IH [OF rest, of "acc @ [rec]"] obtain recs where
      "process_runs E g3 g4 r ps (acc @ [rec]) = Inr ((acc @ [rec]) @ recs)"
      "map file_rel recs = map relative_name (filter (loads E) ps)"
      by blast
    then show ?thesis
      using Inr rec by (intro exI [of _ "rec # recs"]) (simp add: loads_Inr)
  qed
qed

text \<open>
  The exit status is 1 when no input run is found. When runs are found, the gear counts
  are within the range of a float and every run that loads has a row, the batch ends
  with status 0 and one summary record per run that loads, in discovery order.
\<close>

lemma exit_status_no_input:
  "find_input_csvs (input_root E) = [] \<Longrightarrow> exit_status E cfg = 1"
  by (simp add: exit_status_def main_def)

lemma batch_of_runs_with_rows:
  assumes ne: "find_input_csvs (input_root E) \<noteq> []"
    and gears: "gears_in_range (gear3_teeth cfg) (gear4_teeth cfg)"
    and ok: "\<forall>p\<in>set (find_input_csvs (input_root E)).
               \<forall>df. read_csv E p = Inr df \<longrightarrow> rows df \<noteq> []"
  shows "\<exists>recs. main E cfg =
                  Inr \<lparr>exit_code = 0, summary = Some recs,
                       comparison = Some (create_comparison_plots (read_out_csv E)
                                            (csv_out_dir E))\<rparr>
             \<and> exit_status E cfg = 0
             \<and> map file_rel recs
                 = map relative_name (filter (loads E) (find_input_csvs (input_root E)))
             \<and> length recs = length (filter (loads E) (find_input_csvs (input_root E)))"
proof -
  let ?files = "find_input_csvs (input_root E)"
  let ?r = "fmul (wheel2_radius_inches cfg) (Fin 0.0254)"
  from process_runs_nonempty [OF gears ok, of ?r "[]"]
  obtain recs where run: "process_runs E (gear3_teeth cfg) (gear4_teeth cfg) ?r ?files [] = Inr recs"
    and names: "map file_rel recs = map relative_name (filter (loads E) ?files)"
    by auto
  from names have "length (map file_rel recs) = length (map relative_name (filter (loads E) ?files))"
    by simp
  then have "length recs = length (filter (loads E) ?files)"
    by simp
  with run names ne show ?thesis
    by (simp add: exit_status_def main_def Let_def)
qed

lemma sample_env_files:
  "find_input_csvs (input_root sample_env) =
     [(''Ann Tests'', ''150W_run1.csv''), (''Ann Tests'', ''200W_run1.csv''),
      (''BobK Tests'', ''150W_run1.csv'')]"
  by code_simp

lemma sample_env_read: "read_csv sample_env = sample_read"
  by (simp add: sample_env_def)

lemma sample_env_loads:
  "filter (loads sample_env) (find_input_csvs (input_root sample_env)) =
     [(''Ann Tests'', ''150W_run1.csv''), (''BobK Tests'', ''150W_run1.csv'')]"
  by (simp add: sample_env_files loads_def sample_env_read sample_read_def)

lemma sample_env_rows:
  "\<forall>p\<in>set (find_input_csvs (input_root sample_env)).
     \<forall>df. read_csv sample_env p = Inr df \<longrightarrow> rows df \<noteq> []"
  by (simp add: sample_env_files sample_env_read sample_read_def sample_run_def
      unparsable_run_def mk_frame_def)

lemma default_config_gears:
  "gear3_teeth default_config = 24" "gear4_teeth default_config = 48"
  "wheel2_radius_inches default_config = Fin 5.906"
  by (simp_all add: default_config_def)

text \<open>
  Three runs of which one does not load, each of the other two with rows: two summary
  records and status 0.
\<close>

lemma sample_env_two_records:
  "\<exists>recs. main sample_env default_config =
             Inr \<lparr>exit_code = 0, summary = Some recs,
                  comparison = Some (create_comparison_plots (read_out_csv sample_env)
                                       (csv_out_dir sample_env))\<rparr>
        \<and> exit_status sample_env default_config = 0
        \<and> length recs = 2
        \<and> map file_rel recs = [''Ann Tests/150W_run1.csv'', ''BobK Tests/150W_run1.csv'']"
proof -
  have ne: "find_input_csvs (input_root sample_env) \<noteq> []"
    by (simp add: sample_env_files)
  have gears: "gears_in_range (gear3_teeth default_config) (gear4_teeth default_config)"
    by (simp add: default_config_gears gears_24_48)
  from batch_of_runs_with_rows [OF ne gears sample_env_rows]
  obtain recs where run: "main sample_env default_config =
                 Inr \<lparr>exit_code = 0, summary = Some recs,
                      comparison = Some (create_comparison_plots (read_out_csv sample_env)
                                           (csv_out_dir sample_env))\<rparr>"
    and st: "exit_status sample_env default_config = 0"
    and names: "map file_rel recs
                  = map relative_name (filter (loads sample_env)
                                         (find_input_csvs (input_root sample_env)))"
    and len: "length recs = length (filter (loads sample_env)
                                      (find_input_csvs (input_root sample_env)))"
    by blast
  have l2: "length recs = 2"
    using len by (simp add: sample_env_loads)
  have n2: "map file_rel recs = [''Ann Tests/150W_run1.csv'', ''BobK Tests/150W_run1.csv'']"
    using names by (simp add: sample_env_loads relative_name_def)
  show ?thesis
    using run st l2 n2 by (intro exI [of _ recs] conjI)
qed

lemma aborting_env_files:
  "find_input_csvs (input_root aborting_env) =
     [(''Ann Tests'', ''150W_run1.csv''), (''Ann Tests'', ''200W_run1.csv''),
      (''BobK Tests'', ''150W_run1.csv'')]"
  by code_simp

lemma aborting_env_read:
  "read_csv aborting_env = read_with_empty" "parsers aborting_env = sample_pandas"
  by (simp_all add: aborting_env_def)

lemma read_with_empty_values:
  "read_with_empty (''Ann Tests'', ''150W_run1.csv'') = Inr sample_run"
  "read_with_empty (''Ann Tests'', ''200W_run1.csv'') = Inl OtherError"
  "read_with_empty (''BobK Tests'', ''150W_run1.csv'') = Inr header_only_run"
  by (simp_all add: read_with_empty_def)

lemma aborting_env_loads:
  "filter (loads aborting_env) (find_input_csvs (input_root aborting_env)) =
     [(''Ann Tests'', ''150W_run1.csv''), (''BobK Tests'', ''150W_run1.csv'')]"
  by (simp add: aborting_env_files loads_def aborting_env_read read_with_empty_values)

lemma rows_sample_run: "rows sample_run \<noteq> []"
  by (simp add: sample_run_def mk_frame_def)

text \<open>
  Claim C9, evaluated on the code. A batch of three runs: the second cannot be loaded,
  the third has the header line and no row. The run that cannot be loaded is skipped
  and the loop goes on: after the first two files there is one summary record. On the
  third file \<^verbatim>\<open>np.nanmax\<close> raises \<^verbatim>\<open>ValueError\<close>, which leaves \<open>main\<close>: no summary is
  written, and the process ends with status 1 although three input runs were found.
\<close>

theorem unloadable_then_empty_run_exits_1:
  "find_input_csvs (input_root aborting_env) =
     [(''Ann Tests'', ''150W_run1.csv''), (''Ann Tests'', ''200W_run1.csv''),
      (''BobK Tests'', ''150W_run1.csv'')]
   \<and> filter (loads aborting_env) (find_input_csvs (input_root aborting_env)) =
       [(''Ann Tests'', ''150W_run1.csv''), (''BobK Tests'', ''150W_run1.csv'')]
   \<and> read_csv aborting_env (''BobK Tests'', ''150W_run1.csv'') = Inr header_only_run
   \<and> (\<exists>rec. process_runs aborting_env 24 48 (fmul (Fin 5.906) (Fin 0.0254))
               [(''Ann Tests'', ''150W_run1.csv''), (''Ann Tests'', ''200W_run1.csv'')] []
               = Inr [rec]
          \<and> file_rel rec = ''Ann Tests/150W_run1.csv'')
   \<and> main aborting_env default_config = Inl ValueError
   \<and> exit_status aborting_env default_config = 1"
proof -
  let ?r = "fmul (Fin 5.906) (Fin 0.0254)"
  let ?a = "(''Ann Tests'', ''150W_run1.csv'')"
  let ?b = "(''Ann Tests'', ''200W_run1.csv'')"
  let ?c = "(''BobK Tests'', ''150W_run1.csv'')"
  have c: "read_csv aborting_env ?c = Inr header_only_run"
    by (simp only: aborting_env_read read_with_empty_values)
  obtain rec where rec: "summarize_run sample_pandas 24 48 ?r ?a sample_run = Inr rec"
    and name: "file_rel rec = relative_name ?a"
    using summarize_run_nonempty [OF gears_24_48(1) rows_sample_run] by blast
  have empty: "summarize_run sample_pandas 24 48 ?r ?c header_only_run = Inl ValueError"
    by (rule summarize_run_empty [OF gears_24_48(1) rows_header_only])
  have two: "process_runs aborting_env 24 48 ?r [?a, ?b] [] = Inr [rec]"
    by (simp only: process_runs.simps aborting_env_read read_with_empty_values rec sum.case
        and_then_Inr append_Nil)
  have name': "file_rel rec = ''Ann Tests/150W_run1.csv''"
    using name by (simp add: relative_name_def)
  have three: "process_runs aborting_env 24 48 ?r [?a, ?b, ?c] [] = Inl ValueError"
    by (simp only: process_runs.simps aborting_env_read read_with_empty_values rec empty
        sum.case and_then_Inr and_then_Inl append_Nil)
  have ne: "find_input_csvs (input_root aborting_env) \<noteq> []"
    by (simp only: aborting_env_files) simp
  have m: "main aborting_env default_config = Inl ValueError"
    using ne three
    by (simp only: main_def Let_def default_config_gears aborting_env_files if_False
        and_then_Inl)
  have st: "exit_status aborting_env default_config = 1"
    by (simp only: exit_status_def m sum.case)
  have ex: "\<exists>rec. process_runs aborting_env 24 48 ?r [?a, ?b] [] = Inr [rec]
          \<and> file_rel rec = ''Ann Tests/150W_run1.csv''"
    using two name' by (intro exI [of _ rec] conjI)
  from aborting_env_files aborting_env_loads c ex m st show ?thesis
    by (intro conjI)
qed

text \<open>
  Claim C10, evaluated on the code. A batch whose one run file has the header line
  and no row: the file loads, the normalizer returns a frame with an empty torque
  column, \<^verbatim>\<open>np.nanmedian\<close> of it is NaN, but \<^verbatim>\<open>np.nanmax\<close> raises \<^verbatim>\<open>ValueError\<close>, which
  nothing catches: the exception leaves \<open>main\<close>.
\<close>

theorem header_only_run_aborts_batch:
  "find_input_csvs (input_root header_only_env) = [(''Ann Tests'', ''150W_run1.csv'')]
   \<and> read_csv header_only_env (''Ann Tests'', ''150W_run1.csv'') = Inr header_only_run
   \<and> nrows header_only_run = 0
   \<and> (\<exists>out. compute_torque_frame sample_pandas header_only_run 24 48
               (fmul (Fin 5.906) (Fin 0.0254)) = Inr out
          \<and> float_series out ''torque4_nm'' = Inr [])
   \<and> nanmedian [] = NaN
   \<and> nanmax [] = Inl ValueError
   \<and> main header_only_env default_config = Inl ValueError"
proof -
  let ?r = "fmul (Fin 5.906) (Fin 0.0254)"
  have a: "find_input_csvs (input_root header_only_env) = [(''Ann Tests'', ''150W_run1.csv'')]"
    by code_simp
  have b: "read_csv header_only_env (''Ann Tests'', ''150W_run1.csv'') = Inr header_only_run"
    by (simp add: header_only_env_def read_header_only_def)
  have p: "parsers header_only_env = sample_pandas"
    by (simp add: header_only_env_def)
  have c: "nrows header_only_run = 0"
    by (simp add: nrows_def rows_header_only)
  have "torque_values sample_pandas header_only_run 24 48 ?r = []"
    by (simp add: torque_values_def power_values_def input_series_def rows_header_only)
  then have d: "\<exists>out. compute_torque_frame sample_pandas header_only_run 24 48 ?r = Inr out
          \<and> float_series out ''torque4_nm'' = Inr []"
    using compute_torque_frame_normal_form [OF gears_24_48(1), of sample_pandas header_only_run ?r]
    by auto
  have e: "nanmedian [] = NaN" "nanmax [] = Inl ValueError"
    by (simp_all add: nanmedian_def nanmax_def)
  have empty: "summarize_run sample_pandas 24 48 ?r (''Ann Tests'', ''150W_run1.csv'')
                 header_only_run = Inl ValueError"
    by (rule summarize_run_empty [OF gears_24_48(1) rows_header_only])
  have run: "process_runs header_only_env 24 48 ?r [(''Ann Tests'', ''150W_run1.csv'')] []
               = Inl ValueError"
    by (simp only: process_runs.simps b p empty sum.case and_then_Inl)
  have f: "main header_only_env default_config = Inl ValueError"
    using run
    by (simp only: main_def Let_def default_config_gears a) simp
  from a b c d e f show ?thesis
    by (intro conjI)
qed

section \<open>The comparison aggregator\<close>






























end
